theory Spec2Isabelle
  imports Main "HOL-Library.Sublist"
begin

section \<open>JavaScript values used by the annotator\<close>

text \<open>
  The errors the modelled code can raise: reading a property of \<^verbatim>\<open>undefined\<close>
  (TypeError), evaluating an identifier that is bound nowhere (ReferenceError),
  encoding a string that holds an unpaired surrogate (URIError), and removing from the
  page a node that is not there (NotFoundError).
\<close>

datatype js_error = TypeError | ReferenceError | URIError | NotFoundError

text \<open>
  A value that is either \<^verbatim>\<open>undefined\<close> or a string: the dataset URI, the variable name
  and the token all start as \<^verbatim>\<open>undefined\<close>. \<open>toString\<close> is the conversion that
  the operator \<^verbatim>\<open>+\<close> applies when the other operand is a string; \<open>truthy\<close> is the
  test of \<^verbatim>\<open>if (v)\<close> and of \<^verbatim>\<open>!v\<close>.
\<close>

datatype jsval = Undefined | Str string

fun toString :: "jsval \<Rightarrow> string" where
  "toString Undefined = ''undefined''"
| "toString (Str s) = s"

fun truthy :: "jsval \<Rightarrow> bool" where
  "truthy Undefined = False"
| "truthy (Str s) = (s \<noteq> [])"

text \<open>
  Floating point is not modelled: a Number is carried as the decimal text that the
  implicit conversion to string gives it, which is all the code does with a coordinate.
\<close>

type_synonym number = string

record latlng =
  lng :: number
  lat :: number

text \<open>
  A drawn layer. \<^verbatim>\<open>L.Polygon\<close> and \<^verbatim>\<open>L.Rectangle\<close> extend \<^verbatim>\<open>L.Polyline\<close>, so the test
  \<^verbatim>\<open>layer instanceof L.Polyline\<close> holds for all three; \<open>OtherLayer\<close> is a layer of any
  other class (a circle, a layer group).
\<close>

datatype layer = Marker latlng | Polyline "latlng list" | OtherLayer

section \<open>Geometry encoder\<close>

text \<open>
  The loop \<^verbatim>\<open>for (var i = latlngs.length - 1; i >= 0; i--)\<close> of both encoders. The
  counter of the model is \<open>i + 1\<close>, so that \<open>0\<close> is the exit of the loop; every read
  \<open>latlngs ! i\<close> is in range when the loop starts at \<open>length latlngs\<close>.
\<close>

fun poly_loop :: "latlng list \<Rightarrow> nat \<Rightarrow> string \<Rightarrow> string" where
  "poly_loop latlngs 0 poly = poly"
| "poly_loop latlngs (Suc i) poly =
     poly_loop latlngs i (poly @ lng (latlngs ! i) @ '' '' @ lat (latlngs ! i) @ '', '')"

text \<open>
  \<^verbatim>\<open>_getLocationString\<close> of the annotator module (\<open>priv_\<close> stands for the leading
  underscore of the source's name). \<^verbatim>\<open>getLatLngs()\<close> is the flat array of the ring's
  points, as the code reads it. On an empty ring \<^verbatim>\<open>latlngs[-1]\<close> is
  \<^verbatim>\<open>undefined\<close> and reading \<^verbatim>\<open>['lng']\<close> of it throws; for a layer of another class the
  function falls off its end and returns \<^verbatim>\<open>undefined\<close>.
\<close>

definition priv_getLocationString :: "layer \<Rightarrow> js_error + jsval" where
  "priv_getLocationString layer =
     (case layer of
        Marker p \<Rightarrow> Inr (Str (''POINT ('' @ lng p @ '' '' @ lat p @ '')''))
      | Polyline latlngs \<Rightarrow>
          (let poly = poly_loop latlngs (length latlngs) ''POLYGON (('' in
           if latlngs = [] then Inl TypeError
           else Inr (Str (poly @ lng (latlngs ! (length latlngs - 1)) @ '' '' @
                          lat (latlngs ! (length latlngs - 1)) @ ''))'')))
      | OtherLayer \<Rightarrow> Inr Undefined)"

text \<open>
  \<^verbatim>\<open>getLocationString\<close> of charme.js: the same loop, but the closing pair takes its
  longitude from the last point and its latitude from the point at index 0.
\<close>

definition getLocationString :: "layer \<Rightarrow> js_error + jsval" where
  "getLocationString layer =
     (case layer of
        Marker p \<Rightarrow> Inr (Str (''POINT ('' @ lng p @ '' '' @ lat p @ '')''))
      | Polyline latlngs \<Rightarrow>
          (let poly = poly_loop latlngs (length latlngs) ''POLYGON (('' in
           if latlngs = [] then Inl TypeError
           else Inr (Str (poly @ lng (latlngs ! (length latlngs - 1)) @ '' '' @
                          lat (latlngs ! 0) @ ''))'')))
      | OtherLayer \<Rightarrow> Inr Undefined)"

text \<open>
  The text the specification describes, for comparison with the two encoders: the
  coordinate pairs of a ring, separated by a comma and a space, inside
  \<^verbatim>\<open>POLYGON ((\<close> ... \<^verbatim>\<open>))\<close>.
\<close>

definition coord_pair :: "latlng \<Rightarrow> string" where
  "coord_pair p = lng p @ '' '' @ lat p"

fun join_pairs :: "string list \<Rightarrow> string" where
  "join_pairs [] = []"
| "join_pairs [s] = s"
| "join_pairs (s # t # ss) = s @ '', '' @ join_pairs (t # ss)"

definition wkt_polygon :: "latlng list \<Rightarrow> string" where
  "wkt_polygon ring = ''POLYGON (('' @ join_pairs (map coord_pair ring) @ ''))''"

section \<open>Query builders\<close>

text \<open>\<^verbatim>\<open>_getQuery\<close> of the annotator module: the query for one dataset and variable.\<close>

definition priv_getQuery :: "jsval \<Rightarrow> jsval \<Rightarrow> string" where
  \<open>priv_getQuery datasetUri datasetVariable =
     ''PREFIX charme: <http://purl.org/voc/charme#> '' @
     ''PREFIX oa: <http://www.w3.org/ns/oa#> '' @
     ''PREFIX geo: <http://www.opengis.net/ont/geosparql#> '' @
     ''PREFIX geof: <http://www.opengis.net/def/function/geosparql/> '' @
     ''PREFIX cnt: <http://www.w3.org/2011/content#> '' @
     ''PREFIX foaf: <http://xmlns.com/foaf/0.1/> '' @
     ''SELECT ?wkt ?text ?firstname ?surname ?email ?time ?account '' @
     ''WHERE { '' @
     ''    ?anno oa:hasBody ?body . '' @
     ''    ?anno oa:annotatedBy ?authorUri . '' @
     ''    ?anno oa:annotatedAt ?time . '' @
     ''    ?authorUri foaf:givenName ?firstname . '' @
     ''    ?authorUri foaf:familyName ?surname . '' @
     ''    ?authorUri foaf:accountName ?account . '' @
     ''    ?body cnt:chars ?text . '' @
     ''    ?anno oa:hasTarget ?target . '' @
     ''    ?target oa:hasSelector ?selector . '' @
     ''    ?selector charme:hasSpatialExtent ?sp . '' @
     ''    ?sp geo:hasGeometry ?geometry . '' @
     ''    ?geometry geo:asWKT ?wkt . '' @
     ''    ?datasetUri a charme:dataset . '' @
     ''    ?selector charme:hasVariable ?variableUri . '' @
     ''    ?variableUri charme:hasInternalName ?variableName . '' @
     ''    ?authorUri foaf:mbox ?email . '' @
     ''FILTER(?variableName="'' @ toString datasetVariable @ ''") . '' @
     ''FILTER(str(?datasetUri)="'' @ toString datasetUri @ ''") . '' @ ''} ''\<close>

text \<open>
  The bounds of the map view, as \<^verbatim>\<open>map.getBounds()\<close> returns them (fields
  \<^verbatim>\<open>_southWest\<close> and \<^verbatim>\<open>_northEast\<close>).
\<close>

record bounds =
  southWest :: latlng
  northEast :: latlng

text \<open>\<^verbatim>\<open>getQuery\<close> of charme.js: the query for the annotations inside the map view.\<close>

definition getQuery :: "bounds \<Rightarrow> string" where
  \<open>getQuery bounds =
     (let maxx = lng (northEast bounds);
          maxy = lat (northEast bounds);
          minx = lng (southWest bounds);
          miny = lat (southWest bounds) in
      ''PREFIX charme: <http://purl.org/voc/charme#> '' @
      ''PREFIX oa: <http://www.w3.org/ns/oa#> '' @
      ''PREFIX geo: <http://www.opengis.net/ont/geosparql#> '' @
      ''PREFIX geof: <http://www.opengis.net/def/function/geosparql/> '' @
      ''PREFIX cnt: <http://www.w3.org/2011/content#> '' @
      ''PREFIX foaf: <http://xmlns.com/foaf/0.1/> '' @
      ''SELECT ?text ?name ?wkt '' @
      ''WHERE { '' @
      ''    ?anno oa:hasBody ?body . '' @
      ''    ?anno oa:annotatedBy ?authorUri . '' @
      ''    ?authorUri foaf:name ?name . '' @
      ''    ?body cnt:chars ?text . '' @
      ''    ?anno oa:hasTarget ?target . '' @
      ''    ?target oa:hasSelector ?selector . '' @
      ''    ?selector charme:hasSpatialExtent ?sp . '' @
      ''    ?sp geo:hasGeometry ?geometry . '' @
      ''    ?geometry geo:asWKT ?wkt . '' @
      ''    FILTER(geof:sfIntersects(?wkt, "POLYGON(('' @
      minx @ '' '' @ miny @ '','' @
      minx @ '' '' @ maxy @ '','' @
      maxx @ '' '' @ maxy @ '','' @
      maxx @ '' '' @ miny @ '','' @
      minx @ '' '' @ miny @
      ''))"^^geo:wktLiteral)) '' @
      ''} '' @
      ''LIMIT 100'')\<close>

section \<open>Annotation document builders\<close>

text \<open>
  \<^verbatim>\<open>getTurtle\<close> of charme.js. The current time, which the source reads with
  \<^verbatim>\<open>new Date().toISOString()\<close>, is the parameter \<open>dateTime\<close>.
\<close>

definition getTurtle ::
  "string \<Rightarrow> jsval \<Rightarrow> jsval \<Rightarrow> jsval \<Rightarrow> jsval \<Rightarrow> jsval \<Rightarrow> jsval \<Rightarrow> jsval \<Rightarrow> string" where
  \<open>getTurtle dateTime name email authorUri datasetUri datasetVar location comment =
     ''@prefix chnode: <http://localhost/> .'' @
     ''@prefix charme: <http://purl.org/voc/charme#> .'' @
     ''@prefix oa: <http://www.w3.org/ns/oa#> .'' @
     ''@prefix foaf: <http://xmlns.com/foaf/0.1/> .'' @
     ''@prefix prov: <http://www.w3.org/ns/prov#> .'' @
     ''@prefix xsd: <http://www.w3.org/2001/XML-Schema#> .'' @
     ''@prefix geo: <http://www.opengis.net/ont/geosparql#> .'' @
     ''@prefix cnt: <http://www.w3.org/2011/content#> .'' @
     ''@prefix dc: <http://purl.org/dc/elements/1.1/> .'' @
     ''@prefix dctypes: <http://purl.org/dc/dcmitype/> .'' @
     ''<chnode:annoID> a oa:Annotation ;'' @
     ''    oa:annotatedAt "'' @ dateTime @ ''" ;'' @
     ''    oa:annotatedBy <'' @ toString authorUri @ ''> ;'' @
     ''    oa:hasTarget <chnode:targetID> ;'' @
     ''    oa:hasBody <chnode:bodyID> ;'' @
     ''    oa:motivatedBy oa:linking .'' @
     ''<'' @ toString authorUri @ ''> a foaf:Person ;'' @
     ''    foaf:mbox <mailto:'' @ toString email @ ''> ;'' @
     ''    foaf:name "'' @ toString name @ ''" .'' @
     ''<chnode:targetID> a charme:DatasetSubset ;'' @
     ''    oa:hasSource <'' @ toString datasetUri @ ''> ;'' @
     ''    oa:hasSelector <chnode:subsetSelectorID> .'' @
     ''<'' @ toString datasetUri @ ''> a charme:dataset .'' @
     ''<chnode:subsetSelectorID> a charme:SubsetSelector ;'' @
     ''    charme:hasVariable <chnode:variableID-01> ;'' @
     ''    charme:hasSpatialExtent <chnode:spatialExtentID-01> .'' @
     ''<chnode:bodyID> a cnt:ContentAsText, dctypes:Text ;'' @
     ''    cnt:chars "'' @ toString comment @ ''" ;'' @
     ''    dc:format "text/plain" .    '' @
     ''<chnode:variableID-01> a charme:Variable ;'' @
     ''    charme:hasInternalName "'' @ toString datasetVar @ ''" .'' @
     ''<chnode:spatialExtentID-01> a charme:SpatialExtent ;'' @
     ''    geo:hasGeometry <chnode:geometryID-01> .'' @
     ''<chnode:geometryID-01> a geo:Geometry ;'' @
     ''    geo:asWKT "'' @ toString location @ ''"^^geo:wktLiteral .''\<close>

text \<open>
  \<^verbatim>\<open>_getTurtle\<close> of the annotator module: no author among its parameters, and no
  time.
\<close>

definition priv_getTurtle :: "jsval \<Rightarrow> jsval \<Rightarrow> jsval \<Rightarrow> jsval \<Rightarrow> string" where
  \<open>priv_getTurtle datasetUri datasetVar location comment =
     ''@prefix chnode: <http://localhost/> .'' @
     ''@prefix charme: <http://purl.org/voc/charme#> .'' @
     ''@prefix oa: <http://www.w3.org/ns/oa#> .'' @
     ''@prefix prov: <http://www.w3.org/ns/prov#> .'' @
     ''@prefix xsd: <http://www.w3.org/2001/XML-Schema#> .'' @
     ''@prefix geo: <http://www.opengis.net/ont/geosparql#> .'' @
     ''@prefix cnt: <http://www.w3.org/2011/content#> .'' @
     ''@prefix dc: <http://purl.org/dc/elements/1.1/> .'' @
     ''@prefix dctypes: <http://purl.org/dc/dcmitype/> .'' @
     ''<chnode:annoID> a oa:Annotation ;'' @
     ''    oa:hasTarget <chnode:targetID> ;'' @
     ''    oa:hasBody <chnode:bodyID> ;'' @
     ''    oa:motivatedBy oa:linking .'' @
     ''<chnode:targetID> a charme:DatasetSubset ;'' @
     ''    oa:hasSource <'' @ toString datasetUri @ ''> ;'' @
     ''    oa:hasSelector <chnode:subsetSelectorID> .'' @
     ''<'' @ toString datasetUri @ ''> a charme:dataset .'' @
     ''<chnode:subsetSelectorID> a charme:SubsetSelector ;'' @
     ''    charme:hasVariable <chnode:variableID-01> ;'' @
     ''    charme:hasSpatialExtent <chnode:spatialExtentID-01> .'' @
     ''<chnode:bodyID> a cnt:ContentAsText, dctypes:Text ;'' @
     ''    cnt:chars "'' @ toString comment @ ''" ;'' @
     ''    dc:format "text/plain" .    '' @
     ''<chnode:variableID-01> a charme:Variable ;'' @
     ''    charme:hasInternalName "'' @ toString datasetVar @ ''" .'' @
     ''<chnode:spatialExtentID-01> a charme:SpatialExtent ;'' @
     ''    geo:hasGeometry <chnode:geometryID-01> .'' @
     ''<chnode:geometryID-01> a geo:Geometry ;'' @
     ''    geo:asWKT "'' @ toString location @ ''"^^geo:wktLiteral .''\<close>

section \<open>The annotator and the page around it\<close>

text \<open>
  A string is a sequence of 16-bit code units. It is carried as the bytes of its code
  units, each unit written in UTF-8 by itself: an ASCII character is one byte, and a
  surrogate code unit, paired or not, is the three bytes ED, A0..BF, 80..BF (A0..AF for
  a high surrogate, B0..BF for a low one). Concatenation of strings is then
  concatenation of bytes. A surrogate is unpaired when it is a low one that follows no
  high one, or a high one that no low one follows.
\<close>

fun highSurrogateAt :: "string \<Rightarrow> bool" where
  "highSurrogateAt (b1 # b2 # b3 # bs) =
     (b1 = CHR 0xED \<and> 0xA0 \<le> (of_char b2 :: nat) \<and> (of_char b2 :: nat) \<le> 0xAF
      \<and> 0x80 \<le> (of_char b3 :: nat) \<and> (of_char b3 :: nat) \<le> 0xBF)"
| "highSurrogateAt bs = False"

fun lowSurrogateAt :: "string \<Rightarrow> bool" where
  "lowSurrogateAt (b1 # b2 # b3 # bs) =
     (b1 = CHR 0xED \<and> 0xB0 \<le> (of_char b2 :: nat) \<and> (of_char b2 :: nat) \<le> 0xBF
      \<and> 0x80 \<le> (of_char b3 :: nat) \<and> (of_char b3 :: nat) \<le> 0xBF)"
| "lowSurrogateAt bs = False"

fun hasUnpairedSurrogate :: "string \<Rightarrow> bool" where
  "hasUnpairedSurrogate [] = False"
| "hasUnpairedSurrogate (c # cs) =
     (if highSurrogateAt (c # cs) then
        (if lowSurrogateAt (drop 2 cs) then hasUnpairedSurrogate (drop 5 cs) else True)
      else if lowSurrogateAt (c # cs) then True
      else hasUnpairedSurrogate cs)"

text \<open>
  \<^verbatim>\<open>encodeURIComponent\<close>. A character of the unreserved set is copied; any other
  code point becomes, for each byte of its UTF-8 encoding, a percent sign and two
  upper-case hexadecimal digits. The code point of a surrogate pair is encoded in four
  bytes (\<open>pairUtf8\<close>, from the second and third byte of each surrogate). On a string
  with an unpaired surrogate the built-in throws a URIError.
\<close>

definition uriUnreserved :: "char \<Rightarrow> bool" where
  "uriUnreserved c =
     (c \<in> set ''ABCDEFGHIJKLMNOPQRSTUVWXYZabcdefghijklmnopqrstuvwxyz0123456789-_.!~*()''
      \<or> c = CHR 0x27)"

definition hexDigit :: "nat \<Rightarrow> char" where
  "hexDigit n = ''0123456789ABCDEF'' ! (n mod 16)"

definition percentEncode :: "char \<Rightarrow> string" where
  "percentEncode c =
     [CHR ''%'', hexDigit ((of_char c :: nat) div 16), hexDigit ((of_char c :: nat) mod 16)]"

definition pairUtf8 :: "char \<Rightarrow> char \<Rightarrow> char \<Rightarrow> char \<Rightarrow> string" where
  "pairUtf8 h2 h3 l2 l3 =
     (let h = ((of_char h2 :: nat) - 0xA0) * 64 + ((of_char h3 :: nat) - 0x80);
          l = ((of_char l2 :: nat) - 0xB0) * 64 + ((of_char l3 :: nat) - 0x80);
          cp = 0x10000 + h * 1024 + l in
      [char_of (0xF0 + cp div 262144),
       char_of (0x80 + (cp div 4096) mod 64),
       char_of (0x80 + (cp div 64) mod 64),
       char_of (0x80 + cp mod 64)])"

fun uriEncode :: "string \<Rightarrow> string" where
  "uriEncode [] = []"
| "uriEncode (c # cs) =
     (if uriUnreserved c then c # uriEncode cs
      else if highSurrogateAt (c # cs) \<and> lowSurrogateAt (drop 2 cs) then
        concat (map percentEncode (pairUtf8 (cs ! 0) (cs ! 1) (cs ! 3) (cs ! 4))) @
        uriEncode (drop 5 cs)
      else percentEncode c @ uriEncode cs)"

definition encodeURIComponent :: "string \<Rightarrow> js_error + string" where
  "encodeURIComponent s =
     (if hasUnpairedSurrogate s then Inl URIError else Inr (uriEncode s))"

text \<open>A value whose text can be encoded: it holds no unpaired surrogate.\<close>

definition wellFormed :: "jsval \<Rightarrow> bool" where
  "wellFormed v = (\<not> hasUnpairedSurrogate (toString v))"

text \<open>
  A call of \<^verbatim>\<open>fetch\<close> that has not been answered yet. \<open>req_then\<close> names the chain of
  \<^verbatim>\<open>.then\<close> callbacks that the call site attached: the one of \<^verbatim>\<open>_init\<close> (user
  details), of \<^verbatim>\<open>toggleAnnotations\<close> (annotations) or of the submit handler (insert).
\<close>

datatype continuation = OnUserinfo | OnAnnotations | OnInsert

record request =
  req_url :: string
  req_method :: string
  req_headers :: "(string \<times> string) list"
  req_body :: "string option"
  req_then :: continuation

text \<open>
  One feature of the GeoJSON answer, with the properties the default popup format reads,
  and the overlay that \<^verbatim>\<open>L.geoJson\<close> makes of it (its popup, when one was bound).
\<close>

record properties =
  p_text :: jsval
  p_time :: jsval
  p_email :: jsval
  p_firstname :: jsval
  p_surname :: jsval

record feature =
  geometry :: string
  properties :: "properties option"

record overlay =
  ov_geometry :: string
  ov_popup :: "string option"

datatype control = DrawControl

text \<open>
  What an answered request carries: the features of a GeoJSON answer, another JSON
  document (the user details), or a body that is not JSON.
\<close>

datatype payload = Features "feature list" | UserDetails string | NoContent

datatype fired = FiredLogin payload | FiredLogout

text \<open>
  The fields of a \<^verbatim>\<open>CharmeAnnotator\<close>, followed by what its methods reach through
  \<^verbatim>\<open>this.map\<close>, \<^verbatim>\<open>this.charmeOAuth\<close>, \<^verbatim>\<open>this.fire\<close> and \<^verbatim>\<open>fetch\<close>:
  the token object kept by the OAuth library (\<open>Some t\<close> holds \<^verbatim>\<open>access_token\<close> = \<open>t\<close>),
  the controls on the map, the group of temporary drawn layers, the drawn layer whose
  popup (the comment form) is open, whether the \<^verbatim>\<open>draw:created\<close> handler is
  registered, the events fired so far, the requests in flight, and the page's global
  \<^verbatim>\<open>wmsLayer\<close>.
\<close>

record annotator =
  charmeUrl :: string
  drawControl :: "control option"
  annotationsGroup :: "overlay list list"
  annotationsOn :: bool
  datasetUri :: jsval
  datasetVar :: jsval
  formatAnnotation :: "(properties \<Rightarrow> string) option"
  token :: jsval
  charmeOAuth :: "jsval option"
  mapControls :: "control list"
  featureGroup :: "layer list"
  openPopup :: "layer option"
  drawWired :: bool
  fired :: "fired list"
  inflight :: "request list"
  wmsLayer :: "(jsval \<times> jsval) option"

text \<open>
  \<^verbatim>\<open>_init\<close>: with a token object, the token is stored, the user details are requested,
  the draw control is added and the \<^verbatim>\<open>draw:created\<close> handler is registered.
\<close>

definition priv_init :: "annotator \<Rightarrow> annotator" where
  "priv_init this =
     (case charmeOAuth this of
        None \<Rightarrow> this
      | Some access_token \<Rightarrow>
          this\<lparr>token := access_token,
               inflight := inflight this @
                 [\<lparr>req_url = charmeUrl this @ ''token/userinfo'',
                   req_method = ''GET'',
                   req_headers = [(''Authorization'', ''Token '' @ toString access_token)],
                   req_body = None,
                   req_then = OnUserinfo\<rparr>],
               drawControl := Some DrawControl,
               mapControls := mapControls this @ [DrawControl],
               drawWired := True\<rparr>)"

text \<open>
  The constructor. \<open>tokenObj\<close> is what \<^verbatim>\<open>charmeOAuth.checkToken()\<close> will return: the
  token object cached by the OAuth library, if any.
\<close>

definition new_CharmeAnnotator :: "string \<Rightarrow> jsval option \<Rightarrow> annotator" where
  "new_CharmeAnnotator url tokenObj =
     priv_init \<lparr>charmeUrl = url,
           drawControl = None,
           annotationsGroup = [],
           annotationsOn = False,
           datasetUri = Undefined,
           datasetVar = Undefined,
           formatAnnotation = None,
           token = Undefined,
           charmeOAuth = tokenObj,
           mapControls = [],
           featureGroup = [],
           openPopup = None,
           drawWired = False,
           fired = [],
           inflight = [],
           wmsLayer = None\<rparr>"

definition setDatasetDetails :: "jsval \<Rightarrow> jsval \<Rightarrow> annotator \<Rightarrow> annotator" where
  "setDatasetDetails uri variable this = this\<lparr>datasetUri := uri, datasetVar := variable\<rparr>"

definition setFormatAnnotation :: "(properties \<Rightarrow> string) option \<Rightarrow> annotator \<Rightarrow> annotator" where
  "setFormatAnnotation f this = this\<lparr>formatAnnotation := f\<rparr>"

definition isAnnotationsOn :: "annotator \<Rightarrow> bool" where
  "isAnnotationsOn this = annotationsOn this"

text \<open>
  Leaflet's \<^verbatim>\<open>Map.removeControl\<close> (version 0.7, which the code is written for) calls
  \<^verbatim>\<open>control.removeFrom(map)\<close>: an \<^verbatim>\<open>undefined\<close> control is a TypeError, and a control
  that is not on the map (it was removed before) makes \<^verbatim>\<open>removeChild\<close> throw a
  NotFoundError; otherwise the control leaves the map.
\<close>

fun removeControl :: "control option \<Rightarrow> control list \<Rightarrow> js_error + control list" where
  "removeControl None cs = Inl TypeError"
| "removeControl (Some c) cs =
     (if c \<in> set cs then Inr (removeAll c cs) else Inl NotFoundError)"

text \<open>
  \<^verbatim>\<open>charmeLogout\<close>. The statements before \<^verbatim>\<open>removeControl\<close> have taken effect when
  that call throws, so the state is returned beside the error.
\<close>

definition charmeLogout :: "annotator \<Rightarrow> annotator \<times> js_error option" where
  "charmeLogout this =
     (let this1 = this\<lparr>charmeOAuth := None\<rparr>;
          this2 = this1\<lparr>token := Undefined\<rparr>;
          this3 = this2\<lparr>fired := fired this2 @ [FiredLogout]\<rparr> in
      case removeControl (drawControl this3) (mapControls this3) of
        Inl e \<Rightarrow> (this3, Some e)
      | Inr cs \<Rightarrow> (this3\<lparr>mapControls := cs\<rparr>, None))"

text \<open>
  \<^verbatim>\<open>toggleAnnotations\<close>. In the off-branch the argument of \<^verbatim>\<open>fetch\<close> is evaluated
  first: when \<^verbatim>\<open>encodeURIComponent\<close> throws, no request is issued and the flag is not
  set. Otherwise the request goes in flight and the flag is set; the callback that
  renders the answer is \<open>annotations_then\<close> below, run when the answer arrives.
\<close>

definition toggleAnnotations :: "annotator \<Rightarrow> annotator \<times> js_error option" where
  "toggleAnnotations this =
     (if annotationsOn this then
        (this\<lparr>annotationsGroup := [], annotationsOn := False\<rparr>, None)
      else
        (case encodeURIComponent (priv_getQuery (datasetUri this) (datasetVar this)) of
           Inl e \<Rightarrow> (this, Some e)
         | Inr query \<Rightarrow>
             (this\<lparr>inflight := inflight this @
                     [\<lparr>req_url = charmeUrl this @ ''sparql?format=GeoJSON&query='' @ query,
                       req_method = ''GET'',
                       req_headers = [(''Accept'', ''application/json'')],
                       req_body = None,
                       req_then = OnAnnotations\<rparr>],
                   annotationsOn := True\<rparr>,
              None)))"

text \<open>
  Two calls of \<^verbatim>\<open>toggleAnnotations\<close> in a row, as the two refreshes make them: when
  the first throws, the second is not made.
\<close>

definition toggleAnnotations_twice :: "annotator \<Rightarrow> annotator \<times> js_error option" where
  "toggleAnnotations_twice this =
     (case toggleAnnotations this of
        (this1, Some e) \<Rightarrow> (this1, Some e)
      | (this1, None) \<Rightarrow> toggleAnnotations this1)"

text \<open>The default popup format of \<^verbatim>\<open>onEachFeature\<close>.\<close>

definition defaultFormat :: "properties \<Rightarrow> string" where
  \<open>defaultFormat p =
     (let t0 = [];
          t1 = (if truthy (p_text p) then t0 @ toString (p_text p) @ ''<br><br>'' else t0);
          t2 = (if truthy (p_time p)
                then t1 @ ''Annotated at '' @ toString (p_time p) @ '' by:<br>'' else t1);
          t3 = (if truthy (p_email p)
                then t2 @ ''<a href="mailto:'' @ toString (p_email p) @ ''">'' else t2);
          t4 = (if truthy (p_firstname p) \<and> truthy (p_surname p)
                then t3 @ ''<b>'' @ toString (p_firstname p) @ '' '' @
                     toString (p_surname p) @ ''</b><br>''
                else t3);
          t5 = (if truthy (p_email p) then t4 @ ''</a>'' else t4) in
      t5)\<close>

definition onEachFeature :: "annotator \<Rightarrow> feature \<Rightarrow> overlay" where
  "onEachFeature that f =
     (case properties f of
        None \<Rightarrow> \<lparr>ov_geometry = geometry f, ov_popup = None\<rparr>
      | Some p \<Rightarrow>
          \<lparr>ov_geometry = geometry f,
            ov_popup = Some (case formatAnnotation that of
                               Some format \<Rightarrow> format p
                             | None \<Rightarrow> defaultFormat p)\<rparr>)"

text \<open>
  The second \<^verbatim>\<open>.then\<close> callback of \<^verbatim>\<open>toggleAnnotations\<close>: one GeoJSON layer, holding
  an overlay for each feature of the answer, is added to the annotations group.
\<close>

definition annotations_then :: "feature list \<Rightarrow> annotator \<Rightarrow> annotator" where
  "annotations_then resp that =
     that\<lparr>annotationsGroup := annotationsGroup that @ [map (onEachFeature that) resp]\<rparr>"

text \<open>
  The free identifier \<^verbatim>\<open>jso\<close> of the submit handler is bound nowhere in the module;
  what its evaluation does depends on the page. \<open>Unbound\<close>: no global of that name.
  \<open>Bound None\<close>: an OAuth object whose \<^verbatim>\<open>getToken\<close> returns without having called
  the callback. \<open>Bound (Some t)\<close>: the callback is called at once, with a token object
  whose \<^verbatim>\<open>access_token\<close> is \<open>t\<close>.
\<close>

datatype jso_global = Unbound | Bound "jsval option"

fun jso_getToken :: "jso_global \<Rightarrow> annotator \<Rightarrow> js_error + annotator" where
  "jso_getToken Unbound that = Inl ReferenceError"
| "jso_getToken (Bound None) that = Inr that"
| "jso_getToken (Bound (Some t)) that = Inr (that\<lparr>token := t\<rparr>)"

text \<open>
  The click handler of the submit button, for the drawn layer of its
  \<^verbatim>\<open>draw:created\<close> event and the text of the comment field.
\<close>

definition annoSubmit_click ::
  "jso_global \<Rightarrow> layer \<Rightarrow> string \<Rightarrow> annotator \<Rightarrow> annotator \<times> js_error option" where
  "annoSubmit_click jso layer comment that =
     (case priv_getLocationString layer of
        Inl e \<Rightarrow> (that, Some e)
      | Inr location \<Rightarrow>
          (let ttl = priv_getTurtle (datasetUri that) (datasetVar that) location (Str comment) in
           case (if \<not> truthy (token that) then jso_getToken jso that else Inr that) of
             Inl e \<Rightarrow> (that, Some e)
           | Inr that1 \<Rightarrow>
               (that1\<lparr>inflight := inflight that1 @
                         [\<lparr>req_url = charmeUrl that1 @ ''insert/annotation'',
                           req_method = ''post'',
                           req_headers = [(''Content-Type'', ''text/turtle''),
                                          (''Authorization'', ''Token '' @ toString (token that1))],
                           req_body = Some ttl,
                           req_then = OnInsert\<rparr>],
                       featureGroup := removeAll layer (featureGroup that1)\<rparr>,
                None)))"

text \<open>
  The \<^verbatim>\<open>.then\<close> callback of the submit handler: a refresh when annotations are on.
  An error thrown in it goes to the \<^verbatim>\<open>.catch\<close> callback, which logs it.
\<close>

definition insert_then :: "annotator \<Rightarrow> annotator \<times> js_error option" where
  "insert_then that =
     (if annotationsOn that then toggleAnnotations_twice that else (that, None))"

text \<open>\<^verbatim>\<open>selectDataset\<close> of the example page.\<close>

definition selectDataset ::
  "jsval \<Rightarrow> jsval \<Rightarrow> annotator \<Rightarrow> annotator \<times> js_error option" where
  "selectDataset uri variable annotator =
     (let a1 = setDatasetDetails uri variable annotator;
          a2 = a1\<lparr>wmsLayer := Some (uri, variable)\<rparr> in
      if isAnnotationsOn a2 then toggleAnnotations_twice a2 else (a2, None))"

section \<open>The page as a transition system\<close>

text \<open>
  What can happen to the page: a call of a public method, a drawing event, the closing
  of the open popup, a click on the submit button of the open form, and the arrival of
  the answer to (or the failure of) the request at a position of the in-flight list.
\<close>

datatype input =
    ToggleAnnotations
  | SetDatasetDetails jsval jsval
  | SelectDataset jsval jsval
  | SetFormatAnnotation "(properties \<Rightarrow> string) option"
  | CharmeLogout
  | DrawCreated layer
  | PopupClose
  | AnnoSubmit string
  | Resolve nat payload
  | Reject nat

text \<open>
  The callbacks of an answered request. A body that is not JSON makes \<^verbatim>\<open>resp.json()\<close>
  reject, and JSON that is not GeoJSON makes \<^verbatim>\<open>L.geoJson\<close> throw inside the callback:
  in both cases nothing more happens. The callback of an insert reads no answer.
\<close>

fun run_then :: "continuation \<Rightarrow> payload \<Rightarrow> annotator \<Rightarrow> annotator" where
  "run_then OnAnnotations (Features resp) that = annotations_then resp that"
| "run_then OnAnnotations (UserDetails d) that = that"
| "run_then OnAnnotations NoContent that = that"
| "run_then OnUserinfo NoContent that = that"
| "run_then OnUserinfo userdetails that =
     that\<lparr>fired := fired that @ [FiredLogin userdetails]\<rparr>"
| "run_then OnInsert answer that = fst (insert_then that)"

definition take_request :: "nat \<Rightarrow> annotator \<Rightarrow> annotator" where
  "take_request n st = st\<lparr>inflight := take n (inflight st) @ drop (Suc n) (inflight st)\<rparr>"

text \<open>
  The map shows one popup at a time. Opening the popup of a newly drawn layer closes
  the one that is open; closing a popup runs the \<^verbatim>\<open>popupclose\<close> handler, which
  removes its layer from the group of temporary layers; and removing a layer closes
  its popup. The submit button belongs to the form in the open popup. An error thrown
  by a method or a handler is reported and the page goes on from the state reached.
\<close>

fun step :: "jso_global \<Rightarrow> input \<Rightarrow> annotator \<Rightarrow> annotator" where
  "step jso ToggleAnnotations st = fst (toggleAnnotations st)"
| "step jso (SetDatasetDetails uri variable) st = setDatasetDetails uri variable st"
| "step jso (SelectDataset uri variable) st = fst (selectDataset uri variable st)"
| "step jso (SetFormatAnnotation f) st = setFormatAnnotation f st"
| "step jso CharmeLogout st = fst (charmeLogout st)"
| "step jso (DrawCreated layer) st =
     (if drawWired st then
        st\<lparr>featureGroup :=
              (case openPopup st of
                 None \<Rightarrow> featureGroup st
               | Some shown \<Rightarrow> removeAll shown (featureGroup st)) @ [layer],
            openPopup := Some layer\<rparr>
      else st)"
| "step jso PopupClose st =
     (case openPopup st of
        None \<Rightarrow> st
      | Some shown \<Rightarrow>
          st\<lparr>featureGroup := removeAll shown (featureGroup st), openPopup := None\<rparr>)"
| "step jso (AnnoSubmit comment) st =
     (case openPopup st of
        None \<Rightarrow> st
      | Some layer \<Rightarrow>
          (let st1 = fst (annoSubmit_click jso layer comment st) in
           if layer \<in> set (featureGroup st1) then st1 else st1\<lparr>openPopup := None\<rparr>))"
| "step jso (Resolve n answer) st =
     (if n < length (inflight st)
      then run_then (req_then (inflight st ! n)) answer (take_request n st)
      else st)"
| "step jso (Reject n) st =
     (if n < length (inflight st) then take_request n st else st)"

fun run :: "jso_global \<Rightarrow> input list \<Rightarrow> annotator \<Rightarrow> annotator" where
  "run jso [] st = st"
| "run jso (ev # evs) st = run jso evs (step jso ev st)"

text \<open>
  The number of calls of \<^verbatim>\<open>toggleAnnotations\<close> that one input makes: the call itself,
  or the two calls of a refresh (in \<^verbatim>\<open>selectDataset\<close>, and after an insert was
  answered) when annotations are on; the first call of a refresh switches annotations
  off and cannot throw, so the second is always made.
\<close>

fun toggle_calls :: "input \<Rightarrow> annotator \<Rightarrow> nat" where
  "toggle_calls ToggleAnnotations st = 1"
| "toggle_calls (SelectDataset uri variable) st = (if annotationsOn st then 2 else 0)"
| "toggle_calls (Resolve n answer) st =
     (if n < length (inflight st) \<and> req_then (inflight st ! n) = OnInsert \<and> annotationsOn st
      then 2 else 0)"
| "toggle_calls _ st = 0"

fun toggle_calls_of_run :: "jso_global \<Rightarrow> input list \<Rightarrow> annotator \<Rightarrow> nat" where
  "toggle_calls_of_run jso [] st = 0"
| "toggle_calls_of_run jso (ev # evs) st =
     toggle_calls ev st + toggle_calls_of_run jso evs (step jso ev st)"

text \<open>
  An input that gives the annotator a dataset URI and a variable name gives it
  well-formed ones.
\<close>

fun wellFormedInput :: "input \<Rightarrow> bool" where
  "wellFormedInput (SetDatasetDetails uri variable) = (wellFormed uri \<and> wellFormed variable)"
| "wellFormedInput (SelectDataset uri variable) = (wellFormed uri \<and> wellFormed variable)"
| "wellFormedInput _ = True"

section \<open>Facts about texts\<close>

lemma sublist_skip: "sublist xs ys \<Longrightarrow> sublist xs (zs @ ys)"
  by (metis sublist_append)

subsection \<open>Unpaired surrogates\<close>

text \<open>
  An ASCII byte is no part of a surrogate, so the surrogates of a text between ASCII
  texts are those of the text itself, and they are paired or not as they are in it.
\<close>

lemma highSurrogateAt_length: "highSurrogateAt bs \<Longrightarrow> \<exists>b1 b2 b3 rest. bs = b1 # b2 # b3 # rest"
  by (cases bs rule: highSurrogateAt.cases) simp_all

lemma lowSurrogateAt_length: "lowSurrogateAt bs \<Longrightarrow> \<exists>b1 b2 b3 rest. bs = b1 # b2 # b3 # rest"
  by (cases bs rule: lowSurrogateAt.cases) simp_all

lemma highSurrogateAt_ascii_head:
  "(of_char c :: nat) < 128 \<Longrightarrow> \<not> highSurrogateAt (c # cs)"
  by (cases "c # cs" rule: highSurrogateAt.cases) auto

lemma lowSurrogateAt_ascii_head:
  "(of_char c :: nat) < 128 \<Longrightarrow> \<not> lowSurrogateAt (c # cs)"
  by (cases "c # cs" rule: lowSurrogateAt.cases) auto

lemma hasUnpairedSurrogate_ascii_Cons:
  "(of_char c :: nat) < 128 \<Longrightarrow> hasUnpairedSurrogate (c # cs) = hasUnpairedSurrogate cs"
  by (simp add: highSurrogateAt_ascii_head lowSurrogateAt_ascii_head)

lemma highSurrogateAt_second:
  "highSurrogateAt (b1 # b2 # rest) \<Longrightarrow> 128 \<le> (of_char b2 :: nat)"
  by (cases rest) auto

lemma lowSurrogateAt_second:
  "lowSurrogateAt (b1 # b2 # rest) \<Longrightarrow> 128 \<le> (of_char b2 :: nat)"
  by (cases rest) auto

lemma highSurrogateAt_append_ascii:
  assumes "(of_char b :: nat) < 128"
  shows "highSurrogateAt (xs @ b # t) = highSurrogateAt xs"
proof -
  consider "xs = []" | v where "xs = [v]" | v w where "xs = [v, w]"
    | b1 b2 b3 bs where "xs = b1 # b2 # b3 # bs"
    by (cases xs rule: highSurrogateAt.cases) auto
  then show ?thesis
  proof cases
    case 1
    with assms show ?thesis by (simp add: highSurrogateAt_ascii_head)
  next
    case (2 v)
    with assms highSurrogateAt_second [of v b t] show ?thesis by auto
  next
    case (3 v w)
    with assms show ?thesis by auto
  next
    case (4 b1 b2 b3 bs)
    then show ?thesis by simp
  qed
qed

lemma lowSurrogateAt_append_ascii:
  assumes "(of_char b :: nat) < 128"
  shows "lowSurrogateAt (xs @ b # t) = lowSurrogateAt xs"
proof -
  consider "xs = []" | v where "xs = [v]" | v w where "xs = [v, w]"
    | b1 b2 b3 bs where "xs = b1 # b2 # b3 # bs"
    by (cases xs rule: lowSurrogateAt.cases) auto
  then show ?thesis
  proof cases
    case 1
    with assms show ?thesis by (simp add: lowSurrogateAt_ascii_head)
  next
    case (2 v)
    with assms lowSurrogateAt_second [of v b t] show ?thesis by auto
  next
    case (3 v w)
    with assms show ?thesis by auto
  next
    case (4 b1 b2 b3 bs)
    then show ?thesis by simp
  qed
qed

lemma hasUnpairedSurrogate_append_ascii:
  "(of_char b :: nat) < 128 \<Longrightarrow>
   hasUnpairedSurrogate (s @ b # t) = (hasUnpairedSurrogate s \<or> hasUnpairedSurrogate t)"
proof (induction s rule: hasUnpairedSurrogate.induct)
  case 1
  then show ?case
    by (simp add: hasUnpairedSurrogate_ascii_Cons del: hasUnpairedSurrogate.simps(2))
next
  case (2 c cs)
  show ?case
  proof (cases "highSurrogateAt (c # cs)")
    case high: True
    then obtain b2 b3 rest where cs: "cs = b2 # b3 # rest"
      using highSurrogateAt_length by fastforce
    have high': "highSurrogateAt (c # cs @ b # t)"
      using high highSurrogateAt_append_ascii [OF 2(3), of "c # cs" t] by simp
    show ?thesis
    proof (cases "lowSurrogateAt rest")
      case low: True
      then obtain d1 d2 d3 rest' where rest: "rest = d1 # d2 # d3 # rest'"
        using lowSurrogateAt_length by fastforce
      have low': "lowSurrogateAt (rest @ b # t)"
        using low lowSurrogateAt_append_ascii [OF 2(3), of rest t] by simp
      have "hasUnpairedSurrogate (rest' @ b # t)
          = (hasUnpairedSurrogate rest' \<or> hasUnpairedSurrogate t)"
        using 2(1) [OF high] low 2(3) by (simp add: cs rest)
      then show ?thesis
        using high high' low low' by (simp add: cs rest)
    next
      case nolow: False
      have nolow': "\<not> lowSurrogateAt (rest @ b # t)"
        using nolow lowSurrogateAt_append_ascii [OF 2(3), of rest t] by simp
      show ?thesis
        using high high' nolow nolow' by (simp add: cs)
    qed
  next
    case nohigh: False
    have nohigh': "\<not> highSurrogateAt (c # cs @ b # t)"
      using nohigh highSurrogateAt_append_ascii [OF 2(3), of "c # cs" t] by simp
    have low_eq: "lowSurrogateAt (c # cs @ b # t) = lowSurrogateAt (c # cs)"
      using lowSurrogateAt_append_ascii [OF 2(3), of "c # cs" t] by simp
    show ?thesis
    proof (cases "lowSurrogateAt (c # cs)")
      case True
      then show ?thesis using nohigh nohigh' low_eq by simp
    next
      case False
      then show ?thesis
        using nohigh nohigh' low_eq 2(2) [OF nohigh False] 2(3) by simp
    qed
  qed
qed

lemma hasUnpairedSurrogate_priv_getQuery:
  "hasUnpairedSurrogate (priv_getQuery uri var)
     = (hasUnpairedSurrogate (toString var) \<or> hasUnpairedSurrogate (toString uri))"
  by (simp add: priv_getQuery_def hasUnpairedSurrogate_ascii_Cons
      hasUnpairedSurrogate_append_ascii del: hasUnpairedSurrogate.simps(2))

lemma wellFormed_Undefined: "wellFormed Undefined"
  by (simp add: wellFormed_def hasUnpairedSurrogate_ascii_Cons del: hasUnpairedSurrogate.simps(2))

lemma encodeURIComponent_priv_getQuery:
  "encodeURIComponent (priv_getQuery uri var)
     = (if wellFormed uri \<and> wellFormed var then Inr (uriEncode (priv_getQuery uri var))
        else Inl URIError)"
  by (auto simp: encodeURIComponent_def hasUnpairedSurrogate_priv_getQuery wellFormed_def)


text \<open>
  The built-in on a text with a quotation mark and braces, on the euro sign, on the
  surrogate pair D83D DE00, and on each of its halves alone.
\<close>

lemma encodeURIComponent_examples:
  \<open>encodeURIComponent ''a b"?{x}=(y)'' = Inr ''a%20b%22%3F%7Bx%7D%3D(y)''
   \<and> encodeURIComponent [CHR 0xE2, CHR 0x82, CHR 0xAC] = Inr ''%E2%82%AC''
   \<and> encodeURIComponent [CHR 0xED, CHR 0xA0, CHR 0xBD, CHR 0xED, CHR 0xB8, CHR 0x80]
       = Inr ''%F0%9F%98%80''
   \<and> encodeURIComponent [CHR 0xED, CHR 0xA0, CHR 0xBD] = Inl URIError
   \<and> encodeURIComponent [CHR 0xED, CHR 0xB8, CHR 0x80, CHR ''a''] = Inl URIError\<close>
  by (simp add: encodeURIComponent_def uriUnreserved_def percentEncode_def hexDigit_def
      pairUtf8_def)


section \<open>The geometry encoder\<close>

lemma poly_loop_take:
  "n \<le> length latlngs \<Longrightarrow>
   poly_loop latlngs n poly =
     poly @ concat (map (\<lambda>p. coord_pair p @ '', '') (rev (take n latlngs)))"
proof (induction n arbitrary: poly)
  case 0
  then show ?case by simp
next
  case (Suc n)
  then have "take (Suc n) latlngs = take n latlngs @ [latlngs ! n]"
    by (simp add: take_Suc_conv_app_nth)
  with Suc show ?case by (simp add: coord_pair_def)
qed

lemma join_pairs_snoc:
  "join_pairs (ss @ [s]) = concat (map (\<lambda>t. t @ '', '') ss) @ s"
  by (induction ss rule: join_pairs.induct) simp_all

lemma poly_loop_all:
  "poly_loop latlngs (length latlngs) poly @ coord_pair q =
     poly @ join_pairs (map coord_pair (rev latlngs @ [q]))"
  by (simp add: poly_loop_take join_pairs_snoc map_concat comp_def flip: rev_map)

text \<open>
  The encoder of the annotator module emits the ring reversed and closes it with the pair
  it emitted first (the last point of the input).
\<close>

lemma priv_getLocationString_Polyline:
  "latlngs \<noteq> [] \<Longrightarrow>
   priv_getLocationString (Polyline latlngs) =
     Inr (Str (wkt_polygon (rev latlngs @ [last latlngs])))"
  using poly_loop_all [of latlngs "''POLYGON ((''" "last latlngs"]
  by (simp add: priv_getLocationString_def wkt_polygon_def last_conv_nth coord_pair_def)

lemma priv_getLocationString_ring_closed:
  "latlngs \<noteq> [] \<Longrightarrow>
   hd (rev latlngs @ [last latlngs]) = last (rev latlngs @ [last latlngs])"
  by (simp add: hd_rev)

text \<open>
  The encoder of charme.js emits the same reversed ring, but its closing pair is made of
  the longitude of the last point and the latitude of the first.
\<close>

lemma getLocationString_Polyline:
  "latlngs \<noteq> [] \<Longrightarrow>
   getLocationString (Polyline latlngs) =
     Inr (Str (wkt_polygon
       (rev latlngs @ [\<lparr>lng = lng (last latlngs), lat = lat (hd latlngs)\<rparr>])))"
  using poly_loop_all
    [of latlngs "''POLYGON ((''" "\<lparr>lng = lng (last latlngs), lat = lat (hd latlngs)\<rparr>"]
  by (simp add: getLocationString_def wkt_polygon_def last_conv_nth hd_conv_nth coord_pair_def)

text \<open>
  C2. A polygon ring of at least three points is to be encoded as its points in reverse
  order, closed by repeating the first emitted pair as the last. \<^verbatim>\<open>getLocationString\<close>
  of charme.js does not close the triangle (0 0), (4 0), (4 3): it emits 4 3 first and
  4 0 last, while \<^verbatim>\<open>_getLocationString\<close> of the annotator module, on the same ring,
  ends with 4 3 as it began.
\<close>

theorem getLocationString_ring_not_closed:
  "getLocationString
     (Polyline [\<lparr>lng = ''0'', lat = ''0''\<rparr>, \<lparr>lng = ''4'', lat = ''0''\<rparr>,
                \<lparr>lng = ''4'', lat = ''3''\<rparr>])
     = Inr (Str ''POLYGON ((4 3, 4 0, 0 0, 4 0))'')
   \<and> priv_getLocationString
     (Polyline [\<lparr>lng = ''0'', lat = ''0''\<rparr>, \<lparr>lng = ''4'', lat = ''0''\<rparr>,
                \<lparr>lng = ''4'', lat = ''3''\<rparr>])
     = Inr (Str ''POLYGON ((4 3, 4 0, 0 0, 4 3))'')"
  by (simp add: getLocationString_def priv_getLocationString_def eval_nat_numeral)

text \<open>
  C8, as the claim states it, fails: a ring of two points is not rejected, both encoders
  emit a degenerate polygon for it; and a layer that is neither a marker nor a polyline
  does not make them fail, they return \<^verbatim>\<open>undefined\<close>.
\<close>

theorem getLocationString_undersized_ring_counterexample:
  "priv_getLocationString (Polyline [\<lparr>lng = ''0'', lat = ''0''\<rparr>, \<lparr>lng = ''4'', lat = ''3''\<rparr>])
     = Inr (Str ''POLYGON ((4 3, 0 0, 4 3))'')
   \<and> getLocationString (Polyline [\<lparr>lng = ''0'', lat = ''0''\<rparr>, \<lparr>lng = ''4'', lat = ''3''\<rparr>])
     = Inr (Str ''POLYGON ((4 3, 0 0, 4 0))'')
   \<and> priv_getLocationString OtherLayer = Inr Undefined
   \<and> getLocationString OtherLayer = Inr Undefined"
  by (simp add: getLocationString_def priv_getLocationString_def eval_nat_numeral)

text \<open>
  C8, amended. Neither encoder checks the size of a ring or rejects a layer. Each fails
  (with a TypeError) exactly on a ring with no point, returns \<^verbatim>\<open>undefined\<close> without
  failing exactly for a layer that is neither a marker nor a polyline, and returns a
  text for every marker and every ring with at least one point, hence for every ring
  with at least three.
\<close>

theorem getLocationString_fails_only_on_empty_ring:
  "((\<exists>e. priv_getLocationString layer = Inl e) = (layer = Polyline []))
   \<and> ((priv_getLocationString layer = Inr Undefined) = (layer = OtherLayer))
   \<and> ((\<exists>s. priv_getLocationString layer = Inr (Str s))
        = (layer \<noteq> Polyline [] \<and> layer \<noteq> OtherLayer))
   \<and> ((\<exists>e. getLocationString layer = Inl e) = (layer = Polyline []))
   \<and> ((getLocationString layer = Inr Undefined) = (layer = OtherLayer))
   \<and> ((\<exists>s. getLocationString layer = Inr (Str s))
        = (layer \<noteq> Polyline [] \<and> layer \<noteq> OtherLayer))"
  by (cases layer) (auto simp: getLocationString_def priv_getLocationString_def Let_def)

theorem getLocationString_fails_only_on_empty_ring_witness:
  "(\<exists>e. priv_getLocationString (Polyline []) = Inl e)
   \<and> (\<exists>s. priv_getLocationString (Polyline [\<lparr>lng = ''0'', lat = ''0''\<rparr>]) = Inr (Str s))
   \<and> (\<exists>e. getLocationString (Polyline []) = Inl e)"
  using getLocationString_fails_only_on_empty_ring [of "Polyline []"]
    getLocationString_fails_only_on_empty_ring [of "Polyline [\<lparr>lng = ''0'', lat = ''0''\<rparr>]"]
  by simp

section \<open>The query builders\<close>

lemma priv_getQuery_select:
  \<open>sublist ''SELECT ?wkt ?text ?firstname ?surname ?email ?time ?account WHERE { ''
     (priv_getQuery uri var)\<close>
  unfolding priv_getQuery_def
  by ((rule prefix_imp_sublist; simp; fail) | rule sublist_skip)+

lemma priv_getQuery_filters:
  \<open>suffix (''FILTER(?variableName="'' @ toString var @ ''") . '' @
           ''FILTER(str(?datasetUri)="'' @ toString uri @ ''") . } '')
     (priv_getQuery uri var)\<close>
  unfolding priv_getQuery_def suffix_def by simp

lemma priv_getQuery_variable_filter:
  \<open>sublist (''FILTER(?variableName="'' @ toString var @ ''")'') (priv_getQuery uri var)\<close>
  unfolding priv_getQuery_def
  by ((rule prefix_imp_sublist; simp; fail) | rule sublist_skip)+

lemma priv_getQuery_dataset_filter:
  \<open>sublist (''FILTER(str(?datasetUri)="'' @ toString uri @ ''")'') (priv_getQuery uri var)\<close>
  unfolding priv_getQuery_def
  by ((rule prefix_imp_sublist; simp; fail) | rule sublist_skip)+

text \<open>
  C5. For every dataset URI and variable name, the dataset query selects the columns
  wkt, text, firstname, surname, email, time and account, and contains the two filters
  with the caller's strings between the quotes exactly as given: nothing is escaped.
  The query ends with the two filters, the variable's first.
\<close>

theorem priv_getQuery_embeds_selection_verbatim:
  \<open>sublist ''SELECT ?wkt ?text ?firstname ?surname ?email ?time ?account WHERE { ''
     (priv_getQuery (Str uri) (Str var))
   \<and> sublist (''FILTER(str(?datasetUri)="'' @ uri @ ''")'') (priv_getQuery (Str uri) (Str var))
   \<and> sublist (''FILTER(?variableName="'' @ var @ ''")'') (priv_getQuery (Str uri) (Str var))
   \<and> suffix (''FILTER(?variableName="'' @ var @ ''") . '' @
             ''FILTER(str(?datasetUri)="'' @ uri @ ''") . } '')
        (priv_getQuery (Str uri) (Str var))\<close>
  using priv_getQuery_select [of "Str uri" "Str var"]
    priv_getQuery_dataset_filter [of "Str uri" "Str var"]
    priv_getQuery_variable_filter [of "Str var" "Str uri"]
    priv_getQuery_filters [of "Str var" "Str uri"]
  by simp

lemma getQuery_select:
  \<open>sublist ''SELECT ?text ?name ?wkt WHERE { '' (getQuery b)\<close>
  unfolding getQuery_def Let_def
  by ((rule prefix_imp_sublist; simp; fail) | rule sublist_skip)+

lemma getQuery_limit: \<open>suffix ''} LIMIT 100'' (getQuery b)\<close>
  unfolding getQuery_def Let_def suffix_def by simp

lemma getQuery_corners:
  \<open>sublist (''    FILTER(geof:sfIntersects(?wkt, "POLYGON(('' @
      lng (southWest b) @ '' '' @ lat (southWest b) @ '','' @
      lng (southWest b) @ '' '' @ lat (northEast b) @ '','' @
      lng (northEast b) @ '' '' @ lat (northEast b) @ '','' @
      lng (northEast b) @ '' '' @ lat (southWest b) @ '','' @
      lng (southWest b) @ '' '' @ lat (southWest b) @
      ''))"^^geo:wktLiteral)) '') (getQuery b)\<close>
  unfolding getQuery_def Let_def
  by ((rule prefix_imp_sublist; simp; fail) | rule sublist_skip)+

text \<open>
  C6. For every bounds of the view, the viewport query selects the columns text, name
  and wkt, embeds the four bounding coordinates as the ring south-west, north-west,
  north-east, south-east, south-west, and ends with the clause LIMIT 100. Its text is
  determined by the two corners: bounds with the same corners give the same text.
\<close>

theorem getQuery_viewport:
  \<open>sublist ''SELECT ?text ?name ?wkt WHERE { '' (getQuery b)
   \<and> sublist (''    FILTER(geof:sfIntersects(?wkt, "POLYGON(('' @
      lng (southWest b) @ '' '' @ lat (southWest b) @ '','' @
      lng (southWest b) @ '' '' @ lat (northEast b) @ '','' @
      lng (northEast b) @ '' '' @ lat (northEast b) @ '','' @
      lng (northEast b) @ '' '' @ lat (southWest b) @ '','' @
      lng (southWest b) @ '' '' @ lat (southWest b) @
      ''))"^^geo:wktLiteral)) '') (getQuery b)
   \<and> suffix ''} LIMIT 100'' (getQuery b)
   \<and> (southWest b' = southWest b \<and> northEast b' = northEast b
        \<longrightarrow> getQuery b' = getQuery b)\<close>
  using getQuery_select [of b] getQuery_corners [of b] getQuery_limit [of b]
  by (simp add: getQuery_def)

theorem getQuery_viewport_witness:
  \<open>getQuery \<lparr>southWest = \<lparr>lng = ''0'', lat = ''0''\<rparr>, northEast = \<lparr>lng = ''10'', lat = ''10''\<rparr>\<rparr>
     = getQuery \<lparr>southWest = \<lparr>lng = ''0'', lat = ''0''\<rparr>, northEast = \<lparr>lng = ''10'', lat = ''10''\<rparr>\<rparr>
   \<and> sublist
        ''    FILTER(geof:sfIntersects(?wkt, "POLYGON((0 0,0 10,10 10,10 0,0 0))"^^geo:wktLiteral)) ''
        (getQuery \<lparr>southWest = \<lparr>lng = ''0'', lat = ''0''\<rparr>,
                   northEast = \<lparr>lng = ''10'', lat = ''10''\<rparr>\<rparr>)\<close>
  using getQuery_viewport
    [of "\<lparr>southWest = \<lparr>lng = ''0'', lat = ''0''\<rparr>, northEast = \<lparr>lng = ''10'', lat = ''10''\<rparr>\<rparr>"
        "\<lparr>southWest = \<lparr>lng = ''0'', lat = ''0''\<rparr>, northEast = \<lparr>lng = ''10'', lat = ''10''\<rparr>\<rparr>"]
  by simp

section \<open>The document builders\<close>

lemma getTurtle_annotatedBy:
  \<open>sublist (''    oa:annotatedBy <'' @ toString authorUri @ ''> ;'')
     (getTurtle dateTime name email authorUri uri var location comment)\<close>
  unfolding getTurtle_def
  by ((rule prefix_imp_sublist; simp; fail) | rule sublist_skip)+

lemma getTurtle_person:
  \<open>sublist (''<'' @ toString authorUri @ ''> a foaf:Person ;'' @
            ''    foaf:mbox <mailto:'' @ toString email @ ''> ;'' @
            ''    foaf:name "'' @ toString name @ ''" .'')
     (getTurtle dateTime name email authorUri uri var location comment)\<close>
  unfolding getTurtle_def
  by ((rule prefix_imp_sublist; simp; fail) | rule sublist_skip)+

text \<open>
  \<^verbatim>\<open>_getTurtle\<close> has no author among its parameters; the document it builds for the
  sample annotation of charme.js names no agent.
\<close>

lemma priv_getTurtle_example_has_no_author:
  \<open>\<not> sublist ''foaf:''
       (priv_getTurtle (Str ''http://dataset/uri'') (Str ''selectedVar'')
          (Str ''POINT (-3.5 55)'') (Str ''hot''))
   \<and> \<not> sublist ''oa:annotatedBy''
       (priv_getTurtle (Str ''http://dataset/uri'') (Str ''selectedVar'')
          (Str ''POINT (-3.5 55)'') (Str ''hot''))\<close>
  by (simp add: priv_getTurtle_def sublist_Cons_right)

text \<open>
  C7, as the claim states it, fails: with an empty name, email and author URI (the
  fields of the form left blank), \<^verbatim>\<open>getTurtle\<close> still emits the author triples, with
  empty values.
\<close>

theorem getTurtle_absent_author_counterexample:
  \<open>sublist ''    oa:annotatedBy <> ;''
     (getTurtle ''2015-06-01T12:00:00.000Z'' (Str []) (Str []) (Str [])
        (Str ''http://dataset/uri'') (Str ''selectedVar'') (Str ''POINT (-3.5 55)'') (Str ''hot''))
   \<and> sublist ''<> a foaf:Person ;    foaf:mbox <mailto:> ;    foaf:name "" .''
     (getTurtle ''2015-06-01T12:00:00.000Z'' (Str []) (Str []) (Str [])
        (Str ''http://dataset/uri'') (Str ''selectedVar'') (Str ''POINT (-3.5 55)'') (Str ''hot''))\<close>
  unfolding getTurtle_def
  by (rule conjI; ((rule prefix_imp_sublist; simp; fail) | rule sublist_skip)+)

text \<open>
  C7, amended. The document builder that takes an author, \<^verbatim>\<open>getTurtle\<close>, embeds the
  author in every document as an annotating agent, a person with the given mailbox and
  name, whatever the three values are: an absent (empty) identity is emitted as
  empty-valued fields.
\<close>

theorem getTurtle_always_embeds_author:
  \<open>sublist (''    oa:annotatedBy <'' @ toString authorUri @ ''> ;'')
     (getTurtle dateTime name email authorUri uri var location comment)
   \<and> sublist (''<'' @ toString authorUri @ ''> a foaf:Person ;'' @
            ''    foaf:mbox <mailto:'' @ toString email @ ''> ;'' @
            ''    foaf:name "'' @ toString name @ ''" .'')
     (getTurtle dateTime name email authorUri uri var location comment)\<close>
  using getTurtle_annotatedBy getTurtle_person by simp

section \<open>The annotator\<close>

subsection \<open>Toggling\<close>

lemma toggleAnnotations_on:
  "annotationsOn st \<Longrightarrow>
   toggleAnnotations st = (st\<lparr>annotationsGroup := [], annotationsOn := False\<rparr>, None)"
  by (simp add: toggleAnnotations_def)

lemma toggleAnnotations_off:
  "\<not> annotationsOn st \<Longrightarrow> wellFormed (datasetUri st) \<Longrightarrow> wellFormed (datasetVar st) \<Longrightarrow>
   toggleAnnotations st =
     (st\<lparr>inflight := inflight st @
            [\<lparr>req_url = charmeUrl st @ ''sparql?format=GeoJSON&query='' @
                 uriEncode (priv_getQuery (datasetUri st) (datasetVar st)),
              req_method = ''GET'',
              req_headers = [(''Accept'', ''application/json'')],
              req_body = None,
              req_then = OnAnnotations\<rparr>],
          annotationsOn := True\<rparr>,
      None)"
  by (simp add: toggleAnnotations_def encodeURIComponent_priv_getQuery)

lemma toggleAnnotations_throws:
  "\<not> annotationsOn st \<Longrightarrow> \<not> (wellFormed (datasetUri st) \<and> wellFormed (datasetVar st)) \<Longrightarrow>
   toggleAnnotations st = (st, Some URIError)"
  by (simp add: toggleAnnotations_def encodeURIComponent_priv_getQuery)

lemma wellFormed_sample_strings:
  "wellFormed (Str ''http://node/wms/cci'') \<and> wellFormed (Str ''analysed_sst'')
   \<and> wellFormed (Str ''http://node/wms/lc'') \<and> wellFormed (Str ''land_cover'')
   \<and> \<not> wellFormed (Str (''http://node/wms/'' @ [CHR 0xED, CHR 0xA0, CHR 0x80]))"
  by (simp add: wellFormed_def)

text \<open>
  C9, as the claim states it, fails. The dataset URI ends with an unpaired high
  surrogate (D800); annotations are off. \<^verbatim>\<open>toggleAnnotations\<close> throws a URIError while
  it builds the address of the request: no request is issued and the flag stays off.
\<close>

theorem toggleAnnotations_unencodable_counterexample:
  "annotationsOn
     (setDatasetDetails (Str (''http://node/wms/'' @ [CHR 0xED, CHR 0xA0, CHR 0x80]))
        (Str ''analysed_sst'') (new_CharmeAnnotator ''http://node/'' None))
     = False
   \<and> toggleAnnotations
     (setDatasetDetails (Str (''http://node/wms/'' @ [CHR 0xED, CHR 0xA0, CHR 0x80]))
        (Str ''analysed_sst'') (new_CharmeAnnotator ''http://node/'' None))
     = (setDatasetDetails (Str (''http://node/wms/'' @ [CHR 0xED, CHR 0xA0, CHR 0x80]))
          (Str ''analysed_sst'') (new_CharmeAnnotator ''http://node/'' None),
        Some URIError)
   \<and> inflight
     (setDatasetDetails (Str (''http://node/wms/'' @ [CHR 0xED, CHR 0xA0, CHR 0x80]))
        (Str ''analysed_sst'') (new_CharmeAnnotator ''http://node/'' None))
     = []"
  using wellFormed_sample_strings
  by (simp add: toggleAnnotations_def encodeURIComponent_priv_getQuery setDatasetDetails_def
      new_CharmeAnnotator_def priv_init_def)

text \<open>
  C9, amended. Called while annotations are on, \<^verbatim>\<open>toggleAnnotations\<close> empties the
  annotations group and clears the flag, and does nothing else: no request is issued.
  Called while they are off, with a dataset URI and a variable name that hold no
  unpaired surrogate, it returns with the flag set, the query request in flight and not
  yet answered, and the annotations group as it was; the flag stays set whether that
  request is answered or fails. Called while they are off with a URI or a name that
  holds an unpaired surrogate, it throws a URIError and changes nothing.
\<close>

theorem toggleAnnotations_flips_at_once:
  "(annotationsOn st \<longrightarrow>
      toggleAnnotations st = (st\<lparr>annotationsGroup := [], annotationsOn := False\<rparr>, None))
   \<and> (\<not> annotationsOn st \<and> wellFormed (datasetUri st) \<and> wellFormed (datasetVar st) \<longrightarrow>
        snd (toggleAnnotations st) = None
        \<and> annotationsOn (fst (toggleAnnotations st))
        \<and> annotationsGroup (fst (toggleAnnotations st)) = annotationsGroup st
        \<and> inflight (fst (toggleAnnotations st)) = inflight st @
            [\<lparr>req_url = charmeUrl st @ ''sparql?format=GeoJSON&query='' @
                 uriEncode (priv_getQuery (datasetUri st) (datasetVar st)),
              req_method = ''GET'',
              req_headers = [(''Accept'', ''application/json'')],
              req_body = None,
              req_then = OnAnnotations\<rparr>]
        \<and> annotationsOn
            (step jso (Resolve (length (inflight st)) answer) (fst (toggleAnnotations st)))
        \<and> annotationsOn
            (step jso (Reject (length (inflight st))) (fst (toggleAnnotations st))))
   \<and> (\<not> annotationsOn st \<and> \<not> (wellFormed (datasetUri st) \<and> wellFormed (datasetVar st)) \<longrightarrow>
        toggleAnnotations st = (st, Some URIError))"
proof (intro conjI impI)
  assume "annotationsOn st"
  then show "toggleAnnotations st = (st\<lparr>annotationsGroup := [], annotationsOn := False\<rparr>, None)"
    by (rule toggleAnnotations_on)
next
  assume "\<not> annotationsOn st \<and> \<not> (wellFormed (datasetUri st) \<and> wellFormed (datasetVar st))"
  then show "toggleAnnotations st = (st, Some URIError)"
    by (simp add: toggleAnnotations_throws)
next
  assume off: "\<not> annotationsOn st \<and> wellFormed (datasetUri st) \<and> wellFormed (datasetVar st)"
  then have eq: "toggleAnnotations st =
     (st\<lparr>inflight := inflight st @
            [\<lparr>req_url = charmeUrl st @ ''sparql?format=GeoJSON&query='' @
                 uriEncode (priv_getQuery (datasetUri st) (datasetVar st)),
              req_method = ''GET'',
              req_headers = [(''Accept'', ''application/json'')],
              req_body = None,
              req_then = OnAnnotations\<rparr>],
          annotationsOn := True\<rparr>,
      None)"
    by (simp add: toggleAnnotations_off)
  show "snd (toggleAnnotations st) = None"
    by (simp add: eq)
  show "annotationsOn (fst (toggleAnnotations st))"
    by (simp add: eq)
  show "annotationsGroup (fst (toggleAnnotations st)) = annotationsGroup st"
    by (simp add: eq)
  show "inflight (fst (toggleAnnotations st)) = inflight st @
            [\<lparr>req_url = charmeUrl st @ ''sparql?format=GeoJSON&query='' @
                 uriEncode (priv_getQuery (datasetUri st) (datasetVar st)),
              req_method = ''GET'',
              req_headers = [(''Accept'', ''application/json'')],
              req_body = None,
              req_then = OnAnnotations\<rparr>]"
    by (simp add: eq)
  show "annotationsOn
      (step jso (Resolve (length (inflight st)) answer) (fst (toggleAnnotations st)))"
    by (cases answer) (simp_all add: eq take_request_def annotations_then_def)
  show "annotationsOn
      (step jso (Reject (length (inflight st))) (fst (toggleAnnotations st)))"
    by (simp add: eq take_request_def)
qed

theorem toggleAnnotations_flips_at_once_witness:
  "annotationsOn (fst (toggleAnnotations (new_CharmeAnnotator ''http://node/'' None)))
   \<and> length (inflight (fst (toggleAnnotations (new_CharmeAnnotator ''http://node/'' None)))) = 1
   \<and> toggleAnnotations (fst (toggleAnnotations (new_CharmeAnnotator ''http://node/'' None)))
      = ((fst (toggleAnnotations (new_CharmeAnnotator ''http://node/'' None)))
           \<lparr>annotationsGroup := [], annotationsOn := False\<rparr>, None)
   \<and> toggleAnnotations
        (setDatasetDetails (Str (''http://node/wms/'' @ [CHR 0xED, CHR 0xA0, CHR 0x80]))
           (Str ''analysed_sst'') (new_CharmeAnnotator ''http://node/'' None))
      = (setDatasetDetails (Str (''http://node/wms/'' @ [CHR 0xED, CHR 0xA0, CHR 0x80]))
           (Str ''analysed_sst'') (new_CharmeAnnotator ''http://node/'' None),
         Some URIError)"
proof -
  have off: "\<not> annotationsOn (new_CharmeAnnotator ''http://node/'' None)"
    by (simp add: new_CharmeAnnotator_def priv_init_def)
  have empty: "inflight (new_CharmeAnnotator ''http://node/'' None) = []"
    by (simp add: new_CharmeAnnotator_def priv_init_def)
  have wf: "wellFormed (datasetUri (new_CharmeAnnotator ''http://node/'' None))
      \<and> wellFormed (datasetVar (new_CharmeAnnotator ''http://node/'' None))"
    by (simp add: new_CharmeAnnotator_def priv_init_def wellFormed_Undefined)
  have bad: "\<not> annotationsOn
        (setDatasetDetails (Str (''http://node/wms/'' @ [CHR 0xED, CHR 0xA0, CHR 0x80]))
           (Str ''analysed_sst'') (new_CharmeAnnotator ''http://node/'' None))
      \<and> \<not> wellFormed (datasetUri
        (setDatasetDetails (Str (''http://node/wms/'' @ [CHR 0xED, CHR 0xA0, CHR 0x80]))
           (Str ''analysed_sst'') (new_CharmeAnnotator ''http://node/'' None)))"
    using wellFormed_sample_strings
    by (simp add: setDatasetDetails_def new_CharmeAnnotator_def priv_init_def)
  from off empty wf bad show ?thesis
    using toggleAnnotations_flips_at_once [of "new_CharmeAnnotator ''http://node/'' None"]
      toggleAnnotations_flips_at_once
        [of "fst (toggleAnnotations (new_CharmeAnnotator ''http://node/'' None))"]
      toggleAnnotations_flips_at_once
        [of "setDatasetDetails (Str (''http://node/wms/'' @ [CHR 0xED, CHR 0xA0, CHR 0x80]))
           (Str ''analysed_sst'') (new_CharmeAnnotator ''http://node/'' None)"]
    by simp
qed

subsection \<open>The flag and the number of calls\<close>

lemma annotationsOn_toggleAnnotations:
  "wellFormed (datasetUri st) \<Longrightarrow> wellFormed (datasetVar st) \<Longrightarrow>
   annotationsOn (fst (toggleAnnotations st)) = (\<not> annotationsOn st)"
  by (simp add: toggleAnnotations_def encodeURIComponent_priv_getQuery)

lemma dataset_toggleAnnotations:
  "datasetUri (fst (toggleAnnotations st)) = datasetUri st
   \<and> datasetVar (fst (toggleAnnotations st)) = datasetVar st"
  by (simp add: toggleAnnotations_def split: sum.splits)

lemma toggleAnnotations_twice_on:
  "wellFormed (datasetUri st) \<Longrightarrow> wellFormed (datasetVar st) \<Longrightarrow> annotationsOn st \<Longrightarrow>
   annotationsOn (fst (toggleAnnotations_twice st))
   \<and> datasetUri (fst (toggleAnnotations_twice st)) = datasetUri st
   \<and> datasetVar (fst (toggleAnnotations_twice st)) = datasetVar st"
  by (simp add: toggleAnnotations_twice_def toggleAnnotations_def
      encodeURIComponent_priv_getQuery)

lemma run_then_flag:
  "wellFormed (datasetUri st) \<Longrightarrow> wellFormed (datasetVar st) \<Longrightarrow>
   annotationsOn (run_then c answer st) = annotationsOn st
   \<and> datasetUri (run_then c answer st) = datasetUri st
   \<and> datasetVar (run_then c answer st) = datasetVar st"
  using toggleAnnotations_twice_on [of st]
  by (cases c; cases answer) (auto simp: annotations_then_def insert_then_def)

lemma charmeLogout_flag:
  "annotationsOn (fst (charmeLogout st)) = annotationsOn st
   \<and> datasetUri (fst (charmeLogout st)) = datasetUri st
   \<and> datasetVar (fst (charmeLogout st)) = datasetVar st"
  by (simp add: charmeLogout_def Let_def split: sum.splits)

lemma jso_getToken_flag:
  "jso_getToken jso st = Inr st' \<Longrightarrow>
   annotationsOn st' = annotationsOn st \<and> datasetUri st' = datasetUri st
   \<and> datasetVar st' = datasetVar st"
  by (cases "(jso, st)" rule: jso_getToken.cases) auto

lemma annoSubmit_click_flag:
  "annotationsOn (fst (annoSubmit_click jso layer comment st)) = annotationsOn st
   \<and> datasetUri (fst (annoSubmit_click jso layer comment st)) = datasetUri st
   \<and> datasetVar (fst (annoSubmit_click jso layer comment st)) = datasetVar st"
  by (auto simp: annoSubmit_click_def Let_def split: sum.splits dest: jso_getToken_flag)

lemma step_flag:
  assumes "wellFormed (datasetUri st)" and "wellFormed (datasetVar st)"
    and "wellFormedInput ev"
  shows "annotationsOn (step jso ev st) = (annotationsOn st \<noteq> odd (toggle_calls ev st))
    \<and> wellFormed (datasetUri (step jso ev st)) \<and> wellFormed (datasetVar (step jso ev st))"
proof (cases ev)
  case ToggleAnnotations
  then show ?thesis
    using assms by (simp add: annotationsOn_toggleAnnotations dataset_toggleAnnotations)
next
  case (SetDatasetDetails uri variable)
  then show ?thesis
    using assms by (simp add: setDatasetDetails_def)
next
  case (SelectDataset uri variable)
  then show ?thesis
    using assms
      toggleAnnotations_twice_on
        [of "(setDatasetDetails uri variable st)\<lparr>wmsLayer := Some (uri, variable)\<rparr>"]
    by (simp add: selectDataset_def isAnnotationsOn_def setDatasetDetails_def)
next
  case (SetFormatAnnotation f)
  then show ?thesis
    using assms by (simp add: setFormatAnnotation_def)
next
  case CharmeLogout
  then show ?thesis
    using assms by (simp add: charmeLogout_flag)
next
  case (DrawCreated layer)
  then show ?thesis
    using assms by simp
next
  case PopupClose
  then show ?thesis
    using assms by (simp split: option.splits)
next
  case (AnnoSubmit comment)
  then show ?thesis
    using assms by (simp add: annoSubmit_click_flag Let_def split: option.splits)
next
  case (Resolve n answer)
  then show ?thesis
    using assms
      run_then_flag [of "take_request n st" "req_then (inflight st ! n)" answer]
    by (simp add: take_request_def)
next
  case (Reject n)
  then show ?thesis
    using assms by (simp add: take_request_def)
qed

lemma run_flag:
  "wellFormed (datasetUri st) \<Longrightarrow> wellFormed (datasetVar st) \<Longrightarrow>
   list_all wellFormedInput evs \<Longrightarrow>
   annotationsOn (run jso evs st)
     = (annotationsOn st \<noteq> odd (toggle_calls_of_run jso evs st))"
proof (induction evs arbitrary: st)
  case Nil
  then show ?case by simp
next
  case (Cons ev evs)
  from Cons.prems have ev: "wellFormedInput ev" and evs: "list_all wellFormedInput evs"
    by simp_all
  note s = step_flag [OF Cons.prems(1) Cons.prems(2) ev, of jso]
  from s have "annotationsOn (run jso evs (step jso ev st))
      = (annotationsOn (step jso ev st) \<noteq> odd (toggle_calls_of_run jso evs (step jso ev st)))"
    using Cons.IH [of "step jso ev st"] evs by simp
  with s show ?case by auto
qed

text \<open>
  C10, as the claim states it, fails. The annotator is given a dataset URI that ends
  with an unpaired high surrogate and \<^verbatim>\<open>toggleAnnotations\<close> is called once: the call
  throws before it sets the flag, so after one call \<^verbatim>\<open>isAnnotationsOn()\<close> is false.
\<close>

theorem isAnnotationsOn_after_throwing_call_counterexample:
  "isAnnotationsOn
     (run Unbound
        [SetDatasetDetails (Str (''http://node/wms/'' @ [CHR 0xED, CHR 0xA0, CHR 0x80]))
           (Str ''analysed_sst''),
         ToggleAnnotations]
        (new_CharmeAnnotator ''http://node/'' None))
     = False
   \<and> toggle_calls_of_run Unbound
        [SetDatasetDetails (Str (''http://node/wms/'' @ [CHR 0xED, CHR 0xA0, CHR 0x80]))
           (Str ''analysed_sst''),
         ToggleAnnotations]
        (new_CharmeAnnotator ''http://node/'' None)
     = 1"
  using wellFormed_sample_strings
  by (simp add: isAnnotationsOn_def toggleAnnotations_def encodeURIComponent_priv_getQuery
      setDatasetDetails_def new_CharmeAnnotator_def priv_init_def)

text \<open>
  C10, amended. After any sequence of inputs to a newly constructed annotator (calls of
  its methods, clicks, answers to and failures of the requests in flight, in any order)
  in which every dataset URI and variable name given to it holds no unpaired surrogate,
  \<^verbatim>\<open>isAnnotationsOn()\<close> is true exactly when the number of calls of
  \<^verbatim>\<open>toggleAnnotations\<close> made so far is odd: each call flips the flag, whatever
  became of the requests.
\<close>

theorem isAnnotationsOn_iff_odd_toggles:
  "list_all wellFormedInput evs \<Longrightarrow>
   isAnnotationsOn (run jso evs (new_CharmeAnnotator url tokenObj))
     = odd (toggle_calls_of_run jso evs (new_CharmeAnnotator url tokenObj))"
proof -
  assume evs: "list_all wellFormedInput evs"
  have start: "\<not> annotationsOn (new_CharmeAnnotator url tokenObj)
      \<and> wellFormed (datasetUri (new_CharmeAnnotator url tokenObj))
      \<and> wellFormed (datasetVar (new_CharmeAnnotator url tokenObj))"
    by (simp add: new_CharmeAnnotator_def priv_init_def wellFormed_Undefined
        split: option.splits)
  then show ?thesis
    using run_flag [of "new_CharmeAnnotator url tokenObj" evs jso] evs
    by (simp add: isAnnotationsOn_def)
qed

theorem isAnnotationsOn_iff_odd_toggles_witness:
  "isAnnotationsOn
     (run Unbound
        [SetDatasetDetails (Str ''http://node/wms/cci'') (Str ''analysed_sst''),
         ToggleAnnotations, Reject 0, ToggleAnnotations, ToggleAnnotations]
        (new_CharmeAnnotator ''http://node/'' None))
   \<and> toggle_calls_of_run Unbound
        [SetDatasetDetails (Str ''http://node/wms/cci'') (Str ''analysed_sst''),
         ToggleAnnotations, Reject 0, ToggleAnnotations, ToggleAnnotations]
        (new_CharmeAnnotator ''http://node/'' None) = 3"
proof -
  have calls: "toggle_calls_of_run Unbound
        [SetDatasetDetails (Str ''http://node/wms/cci'') (Str ''analysed_sst''),
         ToggleAnnotations, Reject 0, ToggleAnnotations, ToggleAnnotations]
        (new_CharmeAnnotator ''http://node/'' None) = 3"
    by simp
  have wf: "list_all wellFormedInput
        [SetDatasetDetails (Str ''http://node/wms/cci'') (Str ''analysed_sst''),
         ToggleAnnotations, Reject 0, ToggleAnnotations, ToggleAnnotations]"
    using wellFormed_sample_strings by simp
  from calls show ?thesis
    using isAnnotationsOn_iff_odd_toggles [OF wf, of Unbound "''http://node/''" None]
    by simp
qed

subsection \<open>Answers that arrive late\<close>

lemma onEachFeature_take_request:
  "onEachFeature (take_request n st) = onEachFeature st"
  by (rule ext) (simp add: onEachFeature_def take_request_def split: option.splits)

text \<open>
  C1, as the claim states it, fails. A query is issued for the dataset cci; the dataset
  is changed to lc while annotations are on, which toggles them off and on again and
  issues a second query; the answer to the first query then arrives, and its overlay is
  added to the annotations group although the selection is now lc. In the same way, the
  answer to a query that was followed by a toggle-off is rendered while annotations are
  off.
\<close>

theorem stale_response_counterexample:
  \<open>annotationsGroup
     (run Unbound
        [SetDatasetDetails (Str ''http://node/wms/cci'') (Str ''analysed_sst''),
         ToggleAnnotations,
         SelectDataset (Str ''http://node/wms/lc'') (Str ''land_cover''),
         Resolve 0 (Features [\<lparr>geometry = ''Point'',
            properties = Some \<lparr>p_text = Str ''old'', p_time = Undefined, p_email = Undefined,
                               p_firstname = Undefined, p_surname = Undefined\<rparr>\<rparr>])]
        (new_CharmeAnnotator ''http://node/'' None))
     = [[\<lparr>ov_geometry = ''Point'', ov_popup = Some ''old<br><br>''\<rparr>]]
   \<and> map req_url (inflight
       (run Unbound
        [SetDatasetDetails (Str ''http://node/wms/cci'') (Str ''analysed_sst''),
         ToggleAnnotations,
         SelectDataset (Str ''http://node/wms/lc'') (Str ''land_cover'')]
        (new_CharmeAnnotator ''http://node/'' None)))
     = [''http://node/sparql?format=GeoJSON&query='' @
          uriEncode (priv_getQuery (Str ''http://node/wms/cci'') (Str ''analysed_sst'')),
        ''http://node/sparql?format=GeoJSON&query='' @
          uriEncode (priv_getQuery (Str ''http://node/wms/lc'') (Str ''land_cover''))]
   \<and> datasetUri
     (run Unbound
        [SetDatasetDetails (Str ''http://node/wms/cci'') (Str ''analysed_sst''),
         ToggleAnnotations,
         SelectDataset (Str ''http://node/wms/lc'') (Str ''land_cover''),
         Resolve 0 (Features [\<lparr>geometry = ''Point'',
            properties = Some \<lparr>p_text = Str ''old'', p_time = Undefined, p_email = Undefined,
                               p_firstname = Undefined, p_surname = Undefined\<rparr>\<rparr>])]
        (new_CharmeAnnotator ''http://node/'' None))
     = Str ''http://node/wms/lc''
   \<and> annotationsGroup
     (run Unbound
        [ToggleAnnotations,
         ToggleAnnotations,
         Resolve 0 (Features [\<lparr>geometry = ''Point'',
            properties = Some \<lparr>p_text = Str ''old'', p_time = Undefined, p_email = Undefined,
                               p_firstname = Undefined, p_surname = Undefined\<rparr>\<rparr>])]
        (new_CharmeAnnotator ''http://node/'' None))
     = [[\<lparr>ov_geometry = ''Point'', ov_popup = Some ''old<br><br>''\<rparr>]]
   \<and> annotationsOn
     (run Unbound
        [ToggleAnnotations,
         ToggleAnnotations,
         Resolve 0 (Features [\<lparr>geometry = ''Point'',
            properties = Some \<lparr>p_text = Str ''old'', p_time = Undefined, p_email = Undefined,
                               p_firstname = Undefined, p_surname = Undefined\<rparr>\<rparr>])]
        (new_CharmeAnnotator ''http://node/'' None))
     = False\<close>
  using wellFormed_sample_strings
  by (simp add: new_CharmeAnnotator_def priv_init_def setDatasetDetails_def
      toggleAnnotations_def toggleAnnotations_twice_def selectDataset_def
      encodeURIComponent_priv_getQuery wellFormed_Undefined
      isAnnotationsOn_def annotations_then_def take_request_def onEachFeature_def
      defaultFormat_def)

text \<open>
  C1, amended. The answer to an annotation query is rendered whenever it arrives: its
  overlays are added to the annotations group, after those already there, whatever the
  visibility flag and the dataset selection are at that time; neither is changed by it.
\<close>

theorem annotations_response_always_rendered:
  "n < length (inflight st) \<Longrightarrow> req_then (inflight st ! n) = OnAnnotations \<Longrightarrow>
   annotationsGroup (step jso (Resolve n (Features resp)) st)
     = annotationsGroup st @ [map (onEachFeature st) resp]
   \<and> annotationsOn (step jso (Resolve n (Features resp)) st) = annotationsOn st
   \<and> datasetUri (step jso (Resolve n (Features resp)) st) = datasetUri st
   \<and> datasetVar (step jso (Resolve n (Features resp)) st) = datasetVar st"
  by (simp add: annotations_then_def onEachFeature_take_request) (simp add: take_request_def)

theorem annotations_response_always_rendered_witness:
  \<open>annotationsGroup
     (step Unbound
        (Resolve 0 (Features [\<lparr>geometry = ''Point'', properties = None\<rparr>]))
        (run Unbound [ToggleAnnotations, ToggleAnnotations]
           (new_CharmeAnnotator ''http://node/'' None)))
     = [[\<lparr>ov_geometry = ''Point'', ov_popup = None\<rparr>]]
   \<and> annotationsOn
     (step Unbound
        (Resolve 0 (Features [\<lparr>geometry = ''Point'', properties = None\<rparr>]))
        (run Unbound [ToggleAnnotations, ToggleAnnotations]
           (new_CharmeAnnotator ''http://node/'' None)))
     = False\<close>
proof -
  have len: "0 < length (inflight
      (run Unbound [ToggleAnnotations, ToggleAnnotations]
         (new_CharmeAnnotator ''http://node/'' None)))"
    by (simp add: new_CharmeAnnotator_def priv_init_def toggleAnnotations_def
        encodeURIComponent_priv_getQuery wellFormed_Undefined)
  have kind: "req_then (inflight
      (run Unbound [ToggleAnnotations, ToggleAnnotations]
         (new_CharmeAnnotator ''http://node/'' None)) ! 0)
      = OnAnnotations"
    by (simp add: new_CharmeAnnotator_def priv_init_def toggleAnnotations_def
        encodeURIComponent_priv_getQuery wellFormed_Undefined)
  show ?thesis
    using annotations_response_always_rendered [OF len kind, of Unbound
        "[\<lparr>geometry = ''Point'', properties = None\<rparr>]"]
    by (simp add: new_CharmeAnnotator_def priv_init_def toggleAnnotations_def
        encodeURIComponent_priv_getQuery wellFormed_Undefined onEachFeature_def)
qed

subsection \<open>A missing dataset selection\<close>

lemma priv_getTurtle_source:
  \<open>sublist (''    oa:hasSource <'' @ toString uri @ ''> ;'')
     (priv_getTurtle uri var location comment)\<close>
  unfolding priv_getTurtle_def
  by ((rule prefix_imp_sublist; simp; fail) | rule sublist_skip)+

lemma priv_getTurtle_variable:
  \<open>sublist (''    charme:hasInternalName "'' @ toString var @ ''" .'')
     (priv_getTurtle uri var location comment)\<close>
  unfolding priv_getTurtle_def
  by ((rule prefix_imp_sublist; simp; fail) | rule sublist_skip)+

text \<open>
  C3, as the claim states it, fails. On an annotator whose dataset was never selected,
  \<^verbatim>\<open>toggleAnnotations\<close> issues a query whose filters compare with the text
  \<^verbatim>\<open>undefined\<close>, and a submission posts a document whose source is \<^verbatim>\<open><undefined>\<close>
  and whose variable name is \<^verbatim>\<open>"undefined"\<close>; neither fails.
\<close>

theorem missing_selection_counterexample:
  \<open>toggleAnnotations (new_CharmeAnnotator ''http://node/'' None)
     = ((new_CharmeAnnotator ''http://node/'' None)
          \<lparr>inflight :=
             [\<lparr>req_url = ''http://node/sparql?format=GeoJSON&query='' @
                  uriEncode (priv_getQuery Undefined Undefined),
               req_method = ''GET'',
               req_headers = [(''Accept'', ''application/json'')],
               req_body = None,
               req_then = OnAnnotations\<rparr>],
           annotationsOn := True\<rparr>,
        None)
   \<and> suffix ''FILTER(?variableName="undefined") . FILTER(str(?datasetUri)="undefined") . } ''
        (priv_getQuery Undefined Undefined)
   \<and> annoSubmit_click Unbound (Marker \<lparr>lng = ''-3.5'', lat = ''55''\<rparr>) ''hot''
        (new_CharmeAnnotator ''http://node/'' (Some (Str ''secret'')))
     = ((new_CharmeAnnotator ''http://node/'' (Some (Str ''secret'')))
          \<lparr>inflight := inflight (new_CharmeAnnotator ''http://node/'' (Some (Str ''secret''))) @
             [\<lparr>req_url = ''http://node/insert/annotation'',
               req_method = ''post'',
               req_headers = [(''Content-Type'', ''text/turtle''),
                              (''Authorization'', ''Token secret'')],
               req_body = Some (priv_getTurtle Undefined Undefined
                                  (Str ''POINT (-3.5 55)'') (Str ''hot'')),
               req_then = OnInsert\<rparr>]\<rparr>,
        None)
   \<and> sublist ''    oa:hasSource <undefined> ;''
        (priv_getTurtle Undefined Undefined (Str ''POINT (-3.5 55)'') (Str ''hot''))
   \<and> sublist ''    charme:hasInternalName "undefined" .''
        (priv_getTurtle Undefined Undefined (Str ''POINT (-3.5 55)'') (Str ''hot''))\<close>
  using priv_getQuery_filters [of Undefined Undefined]
    priv_getTurtle_source [of Undefined Undefined "Str ''POINT (-3.5 55)''" "Str ''hot''"]
    priv_getTurtle_variable [of Undefined Undefined "Str ''POINT (-3.5 55)''" "Str ''hot''"]
  by (simp add: new_CharmeAnnotator_def priv_init_def toggleAnnotations_def
      encodeURIComponent_priv_getQuery wellFormed_Undefined annoSubmit_click_def
      priv_getLocationString_def)

text \<open>
  C3, amended. Nothing checks the dataset selection. While it is not set, a toggle-on
  issues the query built from it, with the text \<^verbatim>\<open>undefined\<close> in both filters, and a
  submission (with a token, for a layer that the encoder accepts) posts the document
  built from it, with \<^verbatim>\<open>undefined\<close> as the source and as the variable name.
\<close>

theorem missing_selection_is_embedded_as_undefined:
  \<open>datasetUri st = Undefined \<Longrightarrow> datasetVar st = Undefined \<Longrightarrow>
   (\<not> annotationsOn st \<longrightarrow>
      snd (toggleAnnotations st) = None
      \<and> inflight (fst (toggleAnnotations st)) = inflight st @
        [\<lparr>req_url = charmeUrl st @ ''sparql?format=GeoJSON&query='' @
             uriEncode (priv_getQuery Undefined Undefined),
          req_method = ''GET'',
          req_headers = [(''Accept'', ''application/json'')],
          req_body = None,
          req_then = OnAnnotations\<rparr>])
   \<and> suffix ''FILTER(?variableName="undefined") . FILTER(str(?datasetUri)="undefined") . } ''
        (priv_getQuery Undefined Undefined)
   \<and> (truthy (token st) \<and> priv_getLocationString layer = Inr location \<longrightarrow>
        annoSubmit_click jso layer comment st =
          (st\<lparr>inflight := inflight st @
                [\<lparr>req_url = charmeUrl st @ ''insert/annotation'',
                  req_method = ''post'',
                  req_headers = [(''Content-Type'', ''text/turtle''),
                                 (''Authorization'', ''Token '' @ toString (token st))],
                  req_body = Some (priv_getTurtle Undefined Undefined location (Str comment)),
                  req_then = OnInsert\<rparr>],
               featureGroup := removeAll layer (featureGroup st)\<rparr>,
           None))
   \<and> sublist ''    oa:hasSource <undefined> ;''
        (priv_getTurtle Undefined Undefined location (Str comment))
   \<and> sublist ''    charme:hasInternalName "undefined" .''
        (priv_getTurtle Undefined Undefined location (Str comment))\<close>
  using priv_getQuery_filters [of Undefined Undefined]
    priv_getTurtle_source [of Undefined Undefined location "Str comment"]
    priv_getTurtle_variable [of Undefined Undefined location "Str comment"]
  by (simp add: toggleAnnotations_def encodeURIComponent_priv_getQuery wellFormed_Undefined
      annoSubmit_click_def)

theorem missing_selection_is_embedded_as_undefined_witness:
  \<open>map req_body (inflight (fst
     (annoSubmit_click Unbound (Marker \<lparr>lng = ''-3.5'', lat = ''55''\<rparr>) ''hot''
        (new_CharmeAnnotator ''http://node/'' (Some (Str ''secret''))))))
     = [None, Some (priv_getTurtle Undefined Undefined (Str ''POINT (-3.5 55)'') (Str ''hot''))]
   \<and> length (inflight (fst (toggleAnnotations
        (new_CharmeAnnotator ''http://node/'' (Some (Str ''secret'')))))) = 2\<close>
proof -
  have uri: "datasetUri (new_CharmeAnnotator ''http://node/'' (Some (Str ''secret''))) = Undefined"
    by (simp add: new_CharmeAnnotator_def priv_init_def)
  have var: "datasetVar (new_CharmeAnnotator ''http://node/'' (Some (Str ''secret''))) = Undefined"
    by (simp add: new_CharmeAnnotator_def priv_init_def)
  have loc: "priv_getLocationString (Marker \<lparr>lng = ''-3.5'', lat = ''55''\<rparr>)
      = Inr (Str ''POINT (-3.5 55)'')"
    by (simp add: priv_getLocationString_def)
  have tok: "truthy (token (new_CharmeAnnotator ''http://node/'' (Some (Str ''secret''))))"
    by (simp add: new_CharmeAnnotator_def priv_init_def)
  have off: "\<not> annotationsOn (new_CharmeAnnotator ''http://node/'' (Some (Str ''secret'')))"
    by (simp add: new_CharmeAnnotator_def priv_init_def)
  have one: "length (inflight (new_CharmeAnnotator ''http://node/'' (Some (Str ''secret'')))) = 1"
    by (simp add: new_CharmeAnnotator_def priv_init_def)
  have body: "map req_body (inflight (new_CharmeAnnotator ''http://node/'' (Some (Str ''secret''))))
      = [None]"
    by (simp add: new_CharmeAnnotator_def priv_init_def)
  show ?thesis
    using missing_selection_is_embedded_as_undefined [OF uri var, of
        "Marker \<lparr>lng = ''-3.5'', lat = ''55''\<rparr>" "Str ''POINT (-3.5 55)''" Unbound "''hot''"]
      loc tok off one body
    by simp
qed

subsection \<open>Logging out\<close>

text \<open>
  C4, as the claim states it, fails in its second half. After a logout the token is
  \<^verbatim>\<open>undefined\<close>; a submission then evaluates \<^verbatim>\<open>jso.getToken\<close>. Where \<^verbatim>\<open>jso\<close> is
  unbound this throws a ReferenceError, which is no authentication error; where it is
  bound and returns without a token, the insert request is sent with the header
  \<^verbatim>\<open>Authorization: Token undefined\<close>.
\<close>

theorem logout_then_submit_counterexample:
  \<open>token (fst (charmeLogout (new_CharmeAnnotator ''http://node/'' (Some (Str ''secret'')))))
     = Undefined
   \<and> snd (annoSubmit_click Unbound (Marker \<lparr>lng = ''-3.5'', lat = ''55''\<rparr>) ''hot''
        (fst (charmeLogout (new_CharmeAnnotator ''http://node/'' (Some (Str ''secret''))))))
     = Some ReferenceError
   \<and> snd (annoSubmit_click (Bound None) (Marker \<lparr>lng = ''-3.5'', lat = ''55''\<rparr>) ''hot''
        (fst (charmeLogout (new_CharmeAnnotator ''http://node/'' (Some (Str ''secret''))))))
     = None
   \<and> req_headers (last (inflight (fst
       (annoSubmit_click (Bound None) (Marker \<lparr>lng = ''-3.5'', lat = ''55''\<rparr>) ''hot''
          (fst (charmeLogout (new_CharmeAnnotator ''http://node/'' (Some (Str ''secret'')))))))))
     = [(''Content-Type'', ''text/turtle''), (''Authorization'', ''Token undefined'')]
   \<and> req_url (last (inflight (fst
       (annoSubmit_click (Bound None) (Marker \<lparr>lng = ''-3.5'', lat = ''55''\<rparr>) ''hot''
          (fst (charmeLogout (new_CharmeAnnotator ''http://node/'' (Some (Str ''secret'')))))))))
     = ''http://node/insert/annotation''\<close>
  by (simp add: new_CharmeAnnotator_def priv_init_def charmeLogout_def annoSubmit_click_def
      priv_getLocationString_def)

text \<open>
  C4, amended. Every call of \<^verbatim>\<open>charmeLogout\<close> clears the cached token and the
  annotator's token and fires \<^verbatim>\<open>logout\<close> exactly once, before it returns and without
  a request. A later submission is not stopped by the missing token: the handler asks
  \<^verbatim>\<open>jso\<close> for a token, and when that call returns without one the insert request is
  sent with the header \<^verbatim>\<open>Authorization: Token undefined\<close>.
\<close>

theorem charmeLogout_clears_token_and_fires_once:
  \<open>token (fst (charmeLogout st)) = Undefined
   \<and> charmeOAuth (fst (charmeLogout st)) = None
   \<and> fired (fst (charmeLogout st)) = fired st @ [FiredLogout]
   \<and> inflight (fst (charmeLogout st)) = inflight st
   \<and> (priv_getLocationString layer = Inr location \<longrightarrow>
        annoSubmit_click (Bound None) layer comment (fst (charmeLogout st))
        = ((fst (charmeLogout st))
             \<lparr>inflight := inflight st @
                [\<lparr>req_url = charmeUrl st @ ''insert/annotation'',
                  req_method = ''post'',
                  req_headers = [(''Content-Type'', ''text/turtle''),
                                 (''Authorization'', ''Token undefined'')],
                  req_body = Some (priv_getTurtle (datasetUri st) (datasetVar st)
                                     location (Str comment)),
                  req_then = OnInsert\<rparr>],
              featureGroup := removeAll layer (featureGroup st)\<rparr>,
           None))\<close>
  by (cases "drawControl st") (simp_all add: charmeLogout_def annoSubmit_click_def)

theorem charmeLogout_clears_token_and_fires_once_witness:
  \<open>fired (fst (charmeLogout (new_CharmeAnnotator ''http://node/'' (Some (Str ''secret'')))))
     = [FiredLogout]
   \<and> token (fst (charmeLogout (new_CharmeAnnotator ''http://node/'' (Some (Str ''secret'')))))
     = Undefined
   \<and> map req_headers (inflight (fst
        (annoSubmit_click (Bound None) (Marker \<lparr>lng = ''-3.5'', lat = ''55''\<rparr>) ''hot''
           (fst (charmeLogout (new_CharmeAnnotator ''http://node/'' (Some (Str ''secret''))))))))
     = [[(''Authorization'', ''Token secret'')],
        [(''Content-Type'', ''text/turtle''), (''Authorization'', ''Token undefined'')]]\<close>
proof -
  have loc: "priv_getLocationString (Marker \<lparr>lng = ''-3.5'', lat = ''55''\<rparr>)
      = Inr (Str ''POINT (-3.5 55)'')"
    by (simp add: priv_getLocationString_def)
  show ?thesis
    using loc charmeLogout_clears_token_and_fires_once
      [of "new_CharmeAnnotator ''http://node/'' (Some (Str ''secret''))"
          "Marker \<lparr>lng = ''-3.5'', lat = ''55''\<rparr>" "Str ''POINT (-3.5 55)''" "''hot''"]
    by (simp add: new_CharmeAnnotator_def priv_init_def)
qed


end
